theory Spec2Isabelle
  imports Main "HOL-Library.Word" "HOL-Library.Signed_Division" "HOL-Library.Sublist"
begin

unbundle bit_operations_syntax

section \<open>Data model (include/container.h)\<close>

text \<open>
  The runtime is C. Its \<open>int\<close> fields on which the code computes are 32-bit
  words and its \<open>long\<close> fields 64-bit words, read as two's complement by \<open>sint\<close>,
  so that overflow is the machine's.
  Process ids, return codes, wait statuses and timestamps are only copied and compared
  by the code; they are modelled as \<open>int\<close>. A C string is the \<open>string\<close> of its
  characters before the terminating NUL.
\<close>

type_synonym c_int = "32 word"
type_synonym c_long = "64 word"

datatype container_state_t =
    CONTAINER_CREATED
  | CONTAINER_RUNNING
  | CONTAINER_STOPPED
  | CONTAINER_PAUSED
  | CONTAINER_DELETED

datatype mc_error_t =
    MC_OK
  | MC_ERR_MEMORY
  | MC_ERR_NAMESPACE
  | MC_ERR_CGROUP
  | MC_ERR_FILESYSTEM
  | MC_ERR_PROCESS
  | MC_ERR_PERMISSION
  | MC_ERR_NOT_FOUND
  | MC_ERR_INVALID
  | MC_ERR_EXISTS
  | MC_ERR_IO

text \<open>The integer value of each enumerator, as the header assigns it.\<close>

fun mc_code :: "mc_error_t \<Rightarrow> int" where
  "mc_code MC_OK = 0"
| "mc_code MC_ERR_MEMORY = - 1"
| "mc_code MC_ERR_NAMESPACE = - 2"
| "mc_code MC_ERR_CGROUP = - 3"
| "mc_code MC_ERR_FILESYSTEM = - 4"
| "mc_code MC_ERR_PROCESS = - 5"
| "mc_code MC_ERR_PERMISSION = - 6"
| "mc_code MC_ERR_NOT_FOUND = - 7"
| "mc_code MC_ERR_INVALID = - 8"
| "mc_code MC_ERR_EXISTS = - 9"
| "mc_code MC_ERR_IO = - 10"

record resource_limits_t =
  memory_limit_bytes :: c_long
  memory_swap_bytes :: c_long
  cpu_shares :: c_int
  cpu_quota_us :: c_int
  cpu_period_us :: c_int
  pids_max :: c_int

text \<open>
  The field \<open>id\<close> of the C struct is \<open>id_field\<close> here (\<open>id\<close> is HOL's identity).
  \<open>cmd\<close> and \<open>env\<close> are NULL-terminated arrays of strings with their counts;
  the arrays are the lists, the counts stay separate fields as in C.
\<close>

record container_config_t =
  id_field :: string
  name :: string
  hostname :: string
  rootfs :: string
  cmd :: "string list"
  cmd_count :: int
  env :: "string list"
  env_count :: int
  limits :: resource_limits_t
  enable_network :: int
  enable_user_ns :: int
  uid_map_host :: nat
  uid_map_container :: nat
  gid_map_host :: nat
  gid_map_container :: nat


record container_t =
  config :: container_config_t
  state :: container_state_t
  pid :: int
  exit_code :: int
  cgroup_path :: string
  state_dir :: string
  created_at :: int
  started_at :: int
  stopped_at :: int

definition PATH_MAX :: nat where
  "PATH_MAX = 4096"

definition STACK_SIZE :: nat where
  "STACK_SIZE = 1024 * 1024"

section \<open>The operating system as seen by the runtime\<close>

text \<open>
  Every library or system call the code makes is a value of \<open>call\<close>; a run of a
  function is the list of its calls and log lines, in program order. The answers of the
  kernel are parameters: \<open>sys k c\<close> is the return value of the call \<open>c\<close>; a
  failing system call answers its negated \<open>errno\<close>, as the kernel's own interface
  does, and an allocation or \<open>fopen\<close> answers 0 for NULL. A call repeated with the
  same arguments gets the same answer, except the two that the code repeats in order to
  get another one, the polling \<open>waitpid\<close> and \<open>rand\<close>, whose answers are indexed
  by the attempt: \<open>wait_answer k opt i\<close> is the return value of the \<open>i\<close>-th
  \<open>waitpid\<close> with option \<open>opt\<close> and the status it delivers. \<open>stat_is_dir\<close> is \<open>S_ISDIR\<close> of what \<open>stat\<close> found,
  \<open>file_content\<close> what \<open>fopen(path, "r")\<close> opens (\<open>None\<close> when it fails) and
  \<open>dir_entries\<close> what \<open>opendir\<close> and \<open>readdir\<close> list.
\<close>

datatype fd_t = File string | SyncPipeRd | SyncPipeWr | NsFile string

datatype signal_t = SIGTERM | SIGKILL | SIGNULL

datatype ns_flag = CLONE_NEWPID | CLONE_NEWNS | CLONE_NEWUTS | CLONE_NEWIPC
  | CLONE_NEWCGROUP | CLONE_NEWNET | CLONE_NEWUSER | SIGCHLD

datatype mount_flag = MS_RDONLY | MS_NOSUID | MS_NODEV | MS_NOEXEC | MS_BIND | MS_REC
  | MS_PRIVATE

datatype wait_opt = WBLOCK | WNOHANG

datatype call =
    Pipe
  | Malloc nat
  | Calloc
  | Free
  | Clone "ns_flag set"
  | Fork
  | Open_wronly string
  | Open_rdonly string
  | Write fd_t string
  | Read fd_t nat
  | Close fd_t
  | Kill int signal_t
  | Waitpid int wait_opt
  | Usleep nat
  | Time
  | Stat string
  | Mount "string option" string "string option" "mount_flag set" "string option"
  | Mkdir string nat
  | Pivot_root string string
  | Chdir string
  | Umount2_detach string
  | Rmdir string
  | Mknod string nat nat nat
  | Symlink string string
  | Sethostname string
  | Setns fd_t ns_flag
  | Clearenv
  | Setenv string string
  | Execvp string "string list"
  | System string
  | Fopen_w string
  | Fopen_r string
  | Fprintf string string
  | Fclose string
  | Opendir string
  | Getpid
  | Srand
  | Rand

datatype event = Call call | Log nat string

definition EEXIST :: int where
  "EEXIST = 17"

record kernel =
  sys :: "call \<Rightarrow> int"
  wait_answer :: "wait_opt \<Rightarrow> nat \<Rightarrow> int \<times> int"
  stat_is_dir :: "string \<Rightarrow> bool"
  file_content :: "string \<Rightarrow> string option"
  dir_entries :: "string \<Rightarrow> string list option"
  rand_answer :: "nat \<Rightarrow> nat"
  time_now :: int
  self_pid :: int

section \<open>Logging and formatting (container.c)\<close>

definition log_level :: nat where
  "log_level = 1"

text \<open>\<open>mc_log\<close> drops a message below the level; the format string stands for the line.\<close>

definition mc_log :: "nat \<Rightarrow> string \<Rightarrow> event list" where
  "mc_log level fmt = (if level < log_level then [] else [Log level fmt])"

text \<open>\<open>snprintf(buf, n, ...)\<close> keeps at most \<open>n - 1\<close> characters.\<close>

definition snprintf :: "nat \<Rightarrow> string \<Rightarrow> string" where
  "snprintf n s = take (n - 1) s"

function digits10 :: "nat \<Rightarrow> string" where
  "digits10 n = (if n < 10 then [''0123456789'' ! n]
                 else digits10 (n div 10) @ [''0123456789'' ! (n mod 10)])"
  by pat_completeness auto
termination
  by (relation "measure id") auto

declare digits10.simps [simp del]

text \<open>The conversions \<open>%d\<close>/\<open>%ld\<close> and \<open>%u\<close> of printf.\<close>

definition fmt_d :: "int \<Rightarrow> string" where
  "fmt_d i = (if i < 0 then CHR ''-'' # digits10 (nat (- i)) else digits10 (nat i))"

definition fmt_u :: "nat \<Rightarrow> string" where
  "fmt_u n = digits10 n"

section \<open>Namespace orchestration, parent side (namespace.c)\<close>

definition get_ns_flags :: "container_config_t \<Rightarrow> ns_flag set" where
  "get_ns_flags cfg =
     (let flags = {CLONE_NEWPID, CLONE_NEWNS, CLONE_NEWUTS, CLONE_NEWIPC, CLONE_NEWCGROUP};
          flags = (if enable_network cfg \<noteq> 0 then insert CLONE_NEWNET flags else flags);
          flags = (if enable_user_ns cfg \<noteq> 0 then insert CLONE_NEWUSER flags else flags)
      in flags)"

definition write_file :: "kernel \<Rightarrow> string \<Rightarrow> string \<Rightarrow> mc_error_t \<times> event list" where
  "write_file k path content =
     (if sys k (Open_wronly path) < 0 then
        (MC_ERR_IO, Call (Open_wronly path) # mc_log 3 ''Failed to open %s: %s'')
      else if sys k (Write (File path) content) \<noteq> int (length content) then
        (MC_ERR_IO, [Call (Open_wronly path), Call (Write (File path) content)]
           @ mc_log 3 ''Failed to write to %s: %s'' @ [Call (Close (File path))])
      else
        (MC_OK, [Call (Open_wronly path), Call (Write (File path) content),
                 Call (Close (File path))]))"

definition ns_setup_user ::
  "kernel \<Rightarrow> int \<Rightarrow> nat \<Rightarrow> nat \<Rightarrow> nat \<Rightarrow> nat \<Rightarrow> mc_error_t \<times> event list" where
  "ns_setup_user k p uid_host uid_container gid_host gid_container =
     (let (r0, es0) = write_file k (snprintf PATH_MAX (''/proc/'' @ fmt_d p @ ''/setgroups''))
                         ''deny'';
          es0 = es0 @ (if r0 \<noteq> MC_OK
                       then mc_log 2 ''Could not write setgroups deny (may be already denied)''
                       else []);
          (r1, es1) = write_file k (snprintf PATH_MAX (''/proc/'' @ fmt_d p @ ''/uid_map''))
                         (snprintf 256 (fmt_u uid_container @ '' '' @ fmt_u uid_host @ '' 1\<newline>''))
      in if r1 \<noteq> MC_OK then (r1, es0 @ es1 @ mc_log 3 ''Failed to write uid_map'')
         else
           let es1 = es1 @ mc_log 1 ''Set UID mapping: %u -> %u'';
               (r2, es2) = write_file k (snprintf PATH_MAX (''/proc/'' @ fmt_d p @ ''/gid_map''))
                         (snprintf 256 (fmt_u gid_container @ '' '' @ fmt_u gid_host @ '' 1\<newline>''))
           in if r2 \<noteq> MC_OK then (r2, es0 @ es1 @ es2 @ mc_log 3 ''Failed to write gid_map'')
              else (MC_OK, es0 @ es1 @ es2 @ mc_log 1 ''Set GID mapping: %u -> %u''))"

text \<open>
  \<open>ns_create\<close> returns the child's pid, or a negative error code. The child runs
  \<open>container_child\<close> in its own process; what the parent does is this function.
\<close>

definition ns_create :: "kernel \<Rightarrow> container_config_t \<Rightarrow> int \<times> event list" where
  "ns_create k cfg =
     (if sys k Pipe \<noteq> 0 then
        (mc_code MC_ERR_IO, Call Pipe # mc_log 3 ''Failed to create sync pipe: %s'')
      else if sys k (Malloc STACK_SIZE) = 0 then
        (mc_code MC_ERR_MEMORY,
         [Call Pipe, Call (Malloc STACK_SIZE)] @ mc_log 3 ''Failed to allocate stack''
           @ [Call (Close SyncPipeRd), Call (Close SyncPipeWr)])
      else
        let flags = insert SIGCHLD (get_ns_flags cfg);
            p = sys k (Clone flags);
            es = [Call Pipe, Call (Malloc STACK_SIZE), Call (Clone flags)]
        in if p < 0 then
             (mc_code MC_ERR_NAMESPACE,
              es @ mc_log 3 ''clone() failed: %s''
                @ [Call Free, Call (Close SyncPipeRd), Call (Close SyncPipeWr)])
           else
             let es = es @ mc_log 1 ''Created container process with PID: %d'';
                 (ret, es_user) =
                   (if enable_user_ns cfg \<noteq> 0
                    then ns_setup_user k p (uid_map_host cfg) (uid_map_container cfg)
                           (gid_map_host cfg) (gid_map_container cfg)
                    else (MC_OK, []))
             in if ret \<noteq> MC_OK then
                  (mc_code ret,
                   es @ es_user @ [Call (Kill p SIGKILL), Call (Waitpid p WBLOCK), Call Free,
                                   Call (Close SyncPipeRd), Call (Close SyncPipeWr)])
                else
                  (p, es @ es_user @ [Call (Close SyncPipeRd), Call (Write SyncPipeWr ''x''),
                                      Call (Close SyncPipeWr)]))"

section \<open>Cgroup interface files and the record store\<close>

definition write_cgroup_value :: "kernel \<Rightarrow> string \<Rightarrow> string \<Rightarrow> mc_error_t \<times> event list" where
  "write_cgroup_value k path v =
     (if sys k (Open_wronly path) < 0 then
        (MC_ERR_IO, Call (Open_wronly path) # mc_log 3 ''Failed to open %s: %s'')
      else if sys k (Write (File path) v) \<noteq> int (length v) then
        (MC_ERR_IO, [Call (Open_wronly path), Call (Write (File path) v)]
           @ mc_log 3 ''Failed to write to %s: %s'' @ [Call (Close (File path))])
      else
        (MC_OK, [Call (Open_wronly path), Call (Write (File path) v),
                 Call (Close (File path))]))"

definition cgroup_add_pid :: "kernel \<Rightarrow> container_t \<Rightarrow> int \<Rightarrow> mc_error_t \<times> event list" where
  "cgroup_add_pid k c p =
     (let path = snprintf PATH_MAX (cgroup_path c @ ''/cgroup.procs'');
          v = snprintf 32 (fmt_d p);
          (ret, es) = write_cgroup_value k path v
      in if ret \<noteq> MC_OK then (ret, es @ mc_log 3 ''Failed to add PID %d to cgroup'')
         else (MC_OK, es @ mc_log 1 ''Added PID %d to cgroup''))"

fun state_name :: "container_state_t \<Rightarrow> string" where
  "state_name CONTAINER_CREATED = ''created''"
| "state_name CONTAINER_RUNNING = ''running''"
| "state_name CONTAINER_STOPPED = ''stopped''"
| "state_name CONTAINER_PAUSED = ''paused''"
| "state_name CONTAINER_DELETED = ''deleted''"

definition state_file_text :: "container_t \<Rightarrow> string" where
  "state_file_text c =
     ''id='' @ id_field (config c) @ ''\<newline>name='' @ name (config c)
       @ ''\<newline>state='' @ state_name (state c) @ ''\<newline>pid='' @ fmt_d (pid c) @ ''\<newline>''"

definition save_container_state :: "kernel \<Rightarrow> container_t \<Rightarrow> mc_error_t \<times> event list" where
  "save_container_state k c =
     (let path = snprintf PATH_MAX (state_dir c @ ''/state.txt'')
      in if sys k (Fopen_w path) = 0 then (MC_ERR_IO, [Call (Fopen_w path)])
         else (MC_OK, [Call (Fopen_w path), Call (Fprintf path (state_file_text c)),
                       Call (Fclose path)]))"

text \<open>The texts a run prints to state files.\<close>

fun state_write :: "event \<Rightarrow> (string \<times> string) list" where
  "state_write (Call (Fprintf p t)) = [(p, t)]"
| "state_write e = []"

definition state_writes :: "event list \<Rightarrow> (string \<times> string) list" where
  "state_writes es = concat (map state_write es)"

section \<open>Lifecycle: start (container.c)\<close>

text \<open>
  The functions of the lifecycle manager return the C return value, the record as the
  call leaves it, and the run.
\<close>

definition container_start :: "kernel \<Rightarrow> container_t \<Rightarrow> int \<times> container_t \<times> event list" where
  "container_start k c =
     (if state c = CONTAINER_RUNNING then (mc_code MC_ERR_INVALID, c, [])
      else
        let (p, es) = ns_create k (config c)
        in if p < 0 then (p, c, es)
           else
             let c' = c\<lparr>pid := p, state := CONTAINER_RUNNING, started_at := time_now k\<rparr>;
                 (r1, es1) = cgroup_add_pid k c' p;
                 (r2, es2) = save_container_state k c'
             in (mc_code MC_OK, c',
                 es @ [Call Time] @ es1 @ es2 @ mc_log 1 ''Started container: %s (PID %d)''))"

section \<open>Filesystem assembly (filesystem.c)\<close>

text \<open>A file mode written in octal, most significant digit first.\<close>

definition octal :: "nat list \<Rightarrow> nat" where
  "octal ds = foldl (\<lambda>a d. 8 * a + d) 0 ds"

definition S_IFCHR :: nat where
  "S_IFCHR = octal [2, 0, 0, 0, 0]"

text \<open>
  The loop of \<open>mkdir_p\<close>: \<open>pre\<close> is the part of the path before the pointer
  \<open>p\<close>, the list what is left from \<open>p\<close> on. At every \<open>/\<close> the path is cut
  there and \<open>mkdir\<close> is tried on the prefix, its answer ignored.
\<close>

fun mkdir_p_loop :: "string \<Rightarrow> string \<Rightarrow> nat \<Rightarrow> event list" where
  "mkdir_p_loop pre [] mode = []"
| "mkdir_p_loop pre (c # cs) mode =
     (if c = CHR ''/'' then [Call (Mkdir pre mode)] else [])
       @ mkdir_p_loop (pre @ [c]) cs mode"

text \<open>
  \<open>mkdir_p\<close> starts the loop at the second character and ends with \<open>mkdir\<close> on the
  whole path; only this last answer decides. Its callers pass a path of at least one
  character.
\<close>

definition mkdir_p :: "kernel \<Rightarrow> string \<Rightarrow> nat \<Rightarrow> mc_error_t \<times> event list" where
  "mkdir_p k path mode =
     (let tmp = snprintf PATH_MAX path;
          r = sys k (Mkdir tmp mode)
      in (if r = 0 \<or> r = - EEXIST then MC_OK else MC_ERR_IO,
          mkdir_p_loop (take 1 tmp) (drop 1 tmp) mode @ [Call (Mkdir tmp mode)]))"

definition dir_exists :: "kernel \<Rightarrow> string \<Rightarrow> bool" where
  "dir_exists k path = (sys k (Stat path) = 0 \<and> stat_is_dir k path)"

text \<open>\<open>fs_pivot_root\<close>; a NULL \<open>rootfs\<close> is \<open>None\<close>.\<close>

definition fs_pivot_root :: "kernel \<Rightarrow> string option \<Rightarrow> mc_error_t \<times> event list" where
  "fs_pivot_root k rootfs_opt =
     (case rootfs_opt of
        None \<Rightarrow> (MC_ERR_FILESYSTEM, mc_log 3 ''Rootfs does not exist: %s'')
      | Some root \<Rightarrow>
          if \<not> dir_exists k root then
            (MC_ERR_FILESYSTEM, Call (Stat root) # mc_log 3 ''Rootfs does not exist: %s'')
          else
            let private = Mount None ''/'' None {MS_REC, MS_PRIVATE} None;
                es = [Call (Stat root), Call private]
            in if sys k private \<noteq> 0 then
                 (MC_ERR_FILESYSTEM, es @ mc_log 3 ''Failed to make mounts private: %s'')
               else
                 let bind = Mount (Some root) root None {MS_BIND, MS_REC} None;
                     es = es @ [Call bind]
                 in if sys k bind \<noteq> 0 then
                      (MC_ERR_FILESYSTEM, es @ mc_log 3 ''Failed to bind mount rootfs: %s'')
                    else
                      let put_old = snprintf PATH_MAX (root @ ''/.old_root'');
                          es = es @ snd (mkdir_p k put_old (octal [7, 0, 0]))
                                 @ [Call (Pivot_root root put_old)]
                      in if sys k (Pivot_root root put_old) \<noteq> 0 then
                           (MC_ERR_FILESYSTEM,
                            es @ mc_log 3 ''pivot_root failed: %s'' @ [Call (Rmdir put_old)])
                         else
                           (MC_OK,
                            es @ [Call (Chdir ''/'')]
                              @ (if sys k (Chdir ''/'') \<noteq> 0
                                 then mc_log 3 ''chdir to / failed: %s'' else [])
                              @ [Call (Umount2_detach ''/.old_root'')]
                              @ (if sys k (Umount2_detach ''/.old_root'') \<noteq> 0
                                 then mc_log 2 ''umount old_root failed: %s'' else [])
                              @ [Call (Rmdir ''/.old_root'')]
                              @ mc_log 1 ''pivot_root completed successfully''))"

definition fs_mount_essentials :: "kernel \<Rightarrow> mc_error_t \<times> event list" where
  "fs_mount_essentials k =
     (let devtmpfs = Mount (Some ''devtmpfs'') ''/dev'' (Some ''devtmpfs'')
                       {MS_NOSUID, MS_NOEXEC} None
      in (MC_OK,
          snd (mkdir_p k ''/proc'' (octal [5, 5, 5])) @ snd (mkdir_p k ''/sys'' (octal [5, 5, 5]))
          @ snd (mkdir_p k ''/dev'' (octal [7, 5, 5]))
          @ snd (mkdir_p k ''/dev/pts'' (octal [7, 5, 5]))
          @ snd (mkdir_p k ''/dev/shm'' 1777) @ snd (mkdir_p k ''/tmp'' (octal [1, 7, 7, 7]))
          @ [Call (Mount (Some ''proc'') ''/proc'' (Some ''proc'')
                     {MS_NOSUID, MS_NOEXEC, MS_NODEV} None),
             Call (Mount (Some ''sysfs'') ''/sys'' (Some ''sysfs'')
                     {MS_NOSUID, MS_NOEXEC, MS_NODEV, MS_RDONLY} None),
             Call devtmpfs]
          @ (if sys k devtmpfs \<noteq> 0
             then [Call (Mount (Some ''tmpfs'') ''/dev'' (Some ''tmpfs'')
                           {MS_NOSUID, MS_NOEXEC} (Some ''mode=755''))]
             else [])
          @ [Call (Mount (Some ''devpts'') ''/dev/pts'' (Some ''devpts'')
                     {MS_NOSUID, MS_NOEXEC} (Some ''newinstance,ptmxmode=0666'')),
             Call (Mount (Some ''shm'') ''/dev/shm'' (Some ''tmpfs'')
                     {MS_NOSUID, MS_NOEXEC, MS_NODEV} (Some ''mode=1777'')),
             Call (Mount (Some ''tmpfs'') ''/tmp'' (Some ''tmpfs'')
                     {MS_NOSUID, MS_NODEV} (Some ''mode=1777'')),
             Call (Mknod ''/dev/null'' (S_IFCHR + octal [6, 6, 6]) 1 3),
             Call (Mknod ''/dev/zero'' (S_IFCHR + octal [6, 6, 6]) 1 5),
             Call (Mknod ''/dev/random'' (S_IFCHR + octal [6, 6, 6]) 1 8),
             Call (Mknod ''/dev/urandom'' (S_IFCHR + octal [6, 6, 6]) 1 9),
             Call (Mknod ''/dev/tty'' (S_IFCHR + octal [6, 6, 6]) 5 0),
             Call (Mknod ''/dev/console'' (S_IFCHR + octal [6, 0, 0]) 5 1),
             Call (Symlink ''/proc/self/fd'' ''/dev/fd''),
             Call (Symlink ''/proc/self/fd/0'' ''/dev/stdin''),
             Call (Symlink ''/proc/self/fd/1'' ''/dev/stdout''),
             Call (Symlink ''/proc/self/fd/2'' ''/dev/stderr'')]))"

text \<open>The calls of a run, in order, without the log lines.\<close>

fun call_of :: "event \<Rightarrow> call list" where
  "call_of (Call c) = [c]"
| "call_of (Log lvl msg) = []"

definition calls :: "event list \<Rightarrow> call list" where
  "calls es = concat (map call_of es)"

text \<open>The two mounts that \<open>fs_pivot_root\<close> makes before it pivots.\<close>

definition private_mount :: call where
  "private_mount = Mount None ''/'' None {MS_REC, MS_PRIVATE} None"

definition bind_mount :: "string \<Rightarrow> call" where
  "bind_mount root = Mount (Some root) root None {MS_BIND, MS_REC} None"

section \<open>Namespace orchestration, child side (namespace.c)\<close>

text \<open>
  A function that forks ends in one of three ways in the process that runs it: it returns,
  it replaces the process image (\<open>execvp\<close> succeeded), or it exits.
\<close>

datatype outcome = Returned mc_error_t | Replaced string "string list" | Exited int

text \<open>
  \<open>cmd[0]\<close> of a NULL-terminated vector; for the empty vector it is the NULL pointer,
  which \<open>execvp\<close> refuses, and the empty string stands for it.
\<close>

definition argv0 :: "string list \<Rightarrow> string" where
  "argv0 cmdv = (case cmdv of [] \<Rightarrow> [] | a # as \<Rightarrow> a)"

definition ns_setup_uts :: "kernel \<Rightarrow> string \<Rightarrow> mc_error_t \<times> event list" where
  "ns_setup_uts k hn =
     (if hn = [] then (MC_OK, [])
      else if sys k (Sethostname hn) \<noteq> 0 then
        (MC_ERR_NAMESPACE, Call (Sethostname hn) # mc_log 3 ''Failed to set hostname: %s'')
      else (MC_OK, Call (Sethostname hn) # mc_log 1 ''Set hostname to: %s''))"

text \<open>
  One round of the environment loop: an entry with an \<open>=\<close> is split at the first one.
\<close>

definition setenv_entry :: "string \<Rightarrow> event list" where
  "setenv_entry e =
     (if CHR ''='' \<in> set e
      then [Call (Setenv (takeWhile (\<lambda>c. c \<noteq> CHR ''='') e)
                         (tl (dropWhile (\<lambda>c. c \<noteq> CHR ''='') e)))]
      else [])"

text \<open>
  \<open>container_child\<close> is the entry point of the cloned child. It never returns: it ends
  in \<open>exit\<close> or in the command. \<open>k\<close> gives the answers the child gets; that of
  \<open>Read SyncPipeRd 1\<close> is what its blocking one-byte read returns.
\<close>

definition container_child :: "kernel \<Rightarrow> container_config_t \<Rightarrow> outcome \<times> event list" where
  "container_child k cfg =
     (let es = [Call (Close SyncPipeWr), Call (Read SyncPipeRd 1)]
      in if sys k (Read SyncPipeRd 1) \<noteq> 1 then
           (Exited 1, es @ mc_log 3 ''Failed to read from sync pipe'')
         else
           let (r_uts, es_uts) = ns_setup_uts k (hostname cfg);
               es = es @ [Call (Close SyncPipeRd)] @ es_uts
           in if r_uts \<noteq> MC_OK then (Exited 1, es)
              else
                let (r_piv, es_piv) =
                      (if rootfs cfg \<noteq> [] then fs_pivot_root k (Some (rootfs cfg))
                       else (MC_OK, []));
                    es = es @ es_piv
                in if r_piv \<noteq> MC_OK then (Exited 1, es)
                   else
                     let (r_ess, es_ess) =
                           (if rootfs cfg \<noteq> [] then fs_mount_essentials k else (MC_OK, []));
                         es = es @ es_ess
                     in if r_ess \<noteq> MC_OK then (Exited 1, es)
                        else
                          let es = es
                                @ [Call Clearenv,
                                   Call (Setenv ''PATH''
                                     ''/usr/local/sbin:/usr/local/bin:/usr/sbin:/usr/bin:/sbin:/bin''),
                                   Call (Setenv ''TERM'' ''xterm-256color''),
                                   Call (Setenv ''HOME'' ''/root'')]
                                @ concat (map setenv_entry (take (nat (env_count cfg)) (env cfg)))
                          in if 0 < cmd_count cfg \<and> cmd cfg \<noteq> [] then
                               (let run = Execvp (argv0 (cmd cfg)) (cmd cfg);
                                    es = es @ mc_log 1 ''Executing: %s'' @ [Call run]
                                in if sys k run < 0
                                   then (Exited 127, es @ mc_log 3 ''Failed to exec: %s'')
                                   else (Replaced (argv0 (cmd cfg)) (cmd cfg), es))
                             else
                               (let run = Execvp ''/bin/sh'' [''/bin/sh''];
                                    es = es @ [Call run]
                                in if sys k run < 0
                                   then (Exited 127,
                                         es @ mc_log 3 ''Failed to exec default shell: %s'')
                                   else (Replaced ''/bin/sh'' [''/bin/sh''], es)))"

section \<open>Lifecycle: stop and exec (container.c)\<close>

text \<open>
  The macros of \<open><sys/wait.h>\<close> on a wait status, in the encoding of Linux and
  glibc: the low seven bits hold the terminating signal (0 for a normal exit, 0x7f for a
  stopped child) and bits 8 to 15 the exit code.
\<close>

definition WIFEXITED :: "int \<Rightarrow> bool" where
  "WIFEXITED status = (status AND 0x7f = 0)"

definition WEXITSTATUS :: "int \<Rightarrow> int" where
  "WEXITSTATUS status = drop_bit 8 (status AND 0xff00)"

definition WIFSIGNALED :: "int \<Rightarrow> bool" where
  "WIFSIGNALED status = (0 < status AND 0x7f \<and> status AND 0x7f < 0x7f)"

text \<open>
  The \<open>for\<close> loop of \<open>container_stop\<close> from index \<open>i\<close>: the flag says whether
  the loop returned from the function (a poll reaped the child).
\<close>

function stop_poll ::
  "kernel \<Rightarrow> container_t \<Rightarrow> int \<Rightarrow> int \<Rightarrow> bool \<times> container_t \<times> event list" where
  "stop_poll k c lim i =
     (if i < lim then
        (let (r, status) = wait_answer k WNOHANG (nat i)
         in if r > 0 then
              (let c' = c\<lparr>exit_code := status, state := CONTAINER_STOPPED,
                          stopped_at := time_now k\<rparr>
               in (True, c', [Call (Waitpid (pid c) WNOHANG), Call Time]
                             @ snd (save_container_state k c')))
            else
              (let (returned, c', es) = stop_poll k c lim (i + 1)
               in (returned, c',
                   [Call (Waitpid (pid c) WNOHANG), Call (Usleep 100000)] @ es)))
      else (False, c, []))"
  by pat_completeness auto
termination
  by (relation "measure (\<lambda>(k, c, lim, i). nat (lim - i))") auto

declare stop_poll.simps [simp del]

definition container_stop ::
  "kernel \<Rightarrow> container_t \<Rightarrow> c_int \<Rightarrow> int \<times> container_t \<times> event list" where
  "container_stop k c timeout =
     (if state c \<noteq> CONTAINER_RUNNING then (mc_code MC_OK, c, [])
      else
        let (returned, c1, es) = stop_poll k c (sint (timeout * 10)) 0
        in if returned then (mc_code MC_OK, c1, Call (Kill (pid c) SIGTERM) # es)
           else
             let (r, status) = wait_answer k WBLOCK 0;
                 c2 = (if r > 0 then c1\<lparr>exit_code := status\<rparr> else c1);
                 c3 = c2\<lparr>state := CONTAINER_STOPPED, stopped_at := time_now k\<rparr>
             in (mc_code MC_OK, c3,
                 Call (Kill (pid c) SIGTERM) # es
                   @ [Call (Kill (pid c) SIGKILL), Call (Waitpid (pid c) WBLOCK), Call Time]
                   @ snd (save_container_state k c3)))"

definition ns_name :: "ns_flag \<Rightarrow> string option" where
  "ns_name ns_type =
     (case ns_type of CLONE_NEWPID \<Rightarrow> Some ''pid'' | CLONE_NEWNS \<Rightarrow> Some ''mnt''
      | CLONE_NEWUTS \<Rightarrow> Some ''uts'' | CLONE_NEWIPC \<Rightarrow> Some ''ipc''
      | CLONE_NEWNET \<Rightarrow> Some ''net'' | CLONE_NEWUSER \<Rightarrow> Some ''user''
      | CLONE_NEWCGROUP \<Rightarrow> Some ''cgroup'' | SIGCHLD \<Rightarrow> None)"

definition ns_enter :: "kernel \<Rightarrow> int \<Rightarrow> ns_flag \<Rightarrow> mc_error_t \<times> event list" where
  "ns_enter k p ns_type =
     (case ns_name ns_type of
        None \<Rightarrow> (MC_ERR_INVALID, [])
      | Some nm \<Rightarrow>
          let ns_path = snprintf PATH_MAX (''/proc/'' @ fmt_d p @ ''/ns/'' @ nm)
          in if sys k (Open_rdonly ns_path) < 0 then
               (MC_ERR_NOT_FOUND, Call (Open_rdonly ns_path) # mc_log 3 ''Failed to open %s: %s'')
             else if sys k (Setns (NsFile ns_path) ns_type) \<noteq> 0 then
               (MC_ERR_NAMESPACE,
                [Call (Open_rdonly ns_path), Call (Setns (NsFile ns_path) ns_type)]
                  @ mc_log 3 ''setns() failed: %s'' @ [Call (Close (NsFile ns_path))])
             else
               (MC_OK, [Call (Open_rdonly ns_path), Call (Setns (NsFile ns_path) ns_type),
                        Call (Close (NsFile ns_path))]))"

text \<open>The branch \<open>exec_pid == 0\<close> of \<open>container_exec\<close>: the helper child.\<close>

definition container_exec_child ::
  "kernel \<Rightarrow> container_t \<Rightarrow> string list \<Rightarrow> outcome \<times> event list" where
  "container_exec_child k c cmdv =
     (let enter = (\<lambda>ns msg. let (r, es) = ns_enter k (pid c) ns
                              in es @ (if r \<noteq> MC_OK then mc_log 3 msg else []));
          es = enter CLONE_NEWNS ''Failed to enter mount namespace''
             @ enter CLONE_NEWUTS ''Failed to enter UTS namespace''
             @ enter CLONE_NEWIPC ''Failed to enter IPC namespace''
             @ enter CLONE_NEWCGROUP ''Failed to enter cgroup namespace''
             @ [Call Getpid] @ snd (cgroup_add_pid k c (self_pid k))
             @ [Call (Chdir ''/'')]
             @ (if sys k (Chdir ''/'') \<noteq> 0 then mc_log 2 ''Failed to chdir to /'' else [])
             @ mc_log 1 ''Executing command in container %s: %s''
             @ [Call (Execvp (argv0 cmdv) cmdv)]
      in if sys k (Execvp (argv0 cmdv) cmdv) < 0
         then (Exited 127, es @ mc_log 3 ''execvp failed: %s'')
         else (Replaced (argv0 cmdv) cmdv, es))"

text \<open>
  \<open>container_exec\<close>; a NULL record or NULL command vector is \<open>None\<close>. In the parent
  \<open>fork\<close> answers the helper's pid, in the helper it answers 0.
\<close>

definition container_exec ::
  "kernel \<Rightarrow> container_t option \<Rightarrow> string list option \<Rightarrow> int \<Rightarrow> outcome \<times> event list" where
  "container_exec k c_opt cmd_opt cmd_cnt =
     (case (c_opt, cmd_opt) of
        (Some c, Some cmdv) \<Rightarrow>
          if cmd_cnt \<le> 0 then (Returned MC_ERR_INVALID, [])
          else if state c \<noteq> CONTAINER_RUNNING \<or> pid c \<le> 0 then
            (Returned MC_ERR_PROCESS, mc_log 3 ''Container is not running'')
          else if sys k (Kill (pid c) SIGNULL) \<noteq> 0 then
            (Returned MC_ERR_NOT_FOUND,
             Call (Kill (pid c) SIGNULL) # mc_log 3 ''Container process %d not found'')
          else
            let exec_pid = sys k Fork;
                es = [Call (Kill (pid c) SIGNULL), Call Fork]
            in if exec_pid < 0 then
                 (Returned MC_ERR_PROCESS, es @ mc_log 3 ''fork() failed: %s'')
               else if exec_pid = 0 then
                 (let (out, es_child) = container_exec_child k c cmdv in (out, es @ es_child))
               else
                 let (r, status) = wait_answer k WBLOCK 0;
                     es = es @ [Call (Waitpid exec_pid WBLOCK)]
                 in if r < 0 then
                      (Returned MC_ERR_PROCESS, es @ mc_log 3 ''waitpid failed: %s'')
                    else if WIFEXITED status then
                      (Returned (if WEXITSTATUS status = 0 then MC_OK else MC_ERR_PROCESS),
                       es @ mc_log 1 ''Command exited with code %d'')
                    else (Returned MC_OK, es)
      | _ \<Rightarrow> (Returned MC_ERR_INVALID, []))"

section \<open>Cgroup controller (cgroup.c)\<close>

definition cgroup_v2_available :: "kernel \<Rightarrow> bool" where
  "cgroup_v2_available k =
     (sys k (Stat (snprintf PATH_MAX ''/sys/fs/cgroup/cgroup.controllers'')) = 0)"

text \<open>The loop over \<open>controllers[]\<close>, writing each to \<open>path\<close>.\<close>

definition enable_controllers :: "kernel \<Rightarrow> string \<Rightarrow> string \<Rightarrow> event list" where
  "enable_controllers k path msg =
     concat (map (\<lambda>ctl. let (r, es) = write_cgroup_value k path ctl
                         in es @ (if r \<noteq> MC_OK then mc_log 2 msg else []))
                 [''+cpu'', ''+memory'', ''+pids'', ''+io''])"

definition cgroup_create_hierarchy :: "kernel \<Rightarrow> mc_error_t \<times> event list" where
  "cgroup_create_hierarchy k =
     (let base = snprintf PATH_MAX ''/sys/fs/cgroup/kernelsight'';
          r = sys k (Mkdir base (octal [7, 5, 5]))
      in if r \<noteq> 0 \<and> r \<noteq> - EEXIST then
           (MC_ERR_CGROUP,
            Call (Mkdir base (octal [7, 5, 5]))
              # mc_log 3 ''Failed to create cgroup directory %s: %s'')
         else
           (MC_OK,
            Call (Mkdir base (octal [7, 5, 5]))
              # enable_controllers k (snprintf PATH_MAX ''/sys/fs/cgroup/cgroup.subtree_control'')
                  ''Could not enable controller %s (may already be enabled)''
              @ enable_controllers k
                  (snprintf PATH_MAX ''/sys/fs/cgroup/kernelsight/cgroup.subtree_control'')
                  ''Could not enable controller %s in kernelsight cgroup''))"

definition cgroup_init :: "kernel \<Rightarrow> container_t \<Rightarrow> mc_error_t \<times> container_t \<times> event list" where
  "cgroup_init k c =
     (let probe = Call (Stat (snprintf PATH_MAX ''/sys/fs/cgroup/cgroup.controllers''))
      in if \<not> cgroup_v2_available k then
           (MC_ERR_CGROUP, c, probe # mc_log 3 ''Cgroup v2 is not available'')
         else
           let (ret, es) = cgroup_create_hierarchy k
           in if ret \<noteq> MC_OK then (ret, c, probe # es)
              else
                let c' = c\<lparr>cgroup_path :=
                            snprintf PATH_MAX (''/sys/fs/cgroup/kernelsight/''
                                               @ id_field (config c))\<rparr>;
                    r = sys k (Mkdir (cgroup_path c') (octal [7, 5, 5]));
                    es = probe # es @ [Call (Mkdir (cgroup_path c') (octal [7, 5, 5]))]
                in if r \<noteq> 0 \<and> r \<noteq> - EEXIST then
                     (MC_ERR_CGROUP, c', es @ mc_log 3 ''Failed to create container cgroup: %s'')
                   else (MC_OK, c', es @ mc_log 1 ''Created cgroup: %s''))"

text \<open>
  \<open>cgroup_apply_limits\<close> is four blocks in a row, one per axis; each is a definition
  here, named after the block's comment. In the weight block \<open>cpu_shares * 100\<close> is a
  32-bit product and the division truncates towards zero; the quotient is in range, so
  \<open>weight\<close> is an \<open>int\<close>.
\<close>

definition apply_memory_limit :: "kernel \<Rightarrow> container_t \<Rightarrow> event list" where
  "apply_memory_limit k c =
     (let l = limits (config c)
      in if 0 <s memory_limit_bytes l then
           (let (r, es) = write_cgroup_value k
                            (snprintf PATH_MAX (cgroup_path c @ ''/memory.max''))
                            (snprintf 128 (fmt_d (sint (memory_limit_bytes l))));
                es = es @ (if r \<noteq> MC_OK then mc_log 2 ''Could not set memory limit''
                           else mc_log 1 ''Set memory limit: %ld bytes'')
            in if 0 \<le>s memory_swap_bytes l then
                 (let (r, es_swap) = write_cgroup_value k
                                  (snprintf PATH_MAX (cgroup_path c @ ''/memory.swap.max''))
                                  (snprintf 128 (fmt_d (sint (memory_swap_bytes l))))
                  in es @ es_swap
                       @ (if r \<noteq> MC_OK then mc_log 2 ''Could not set swap limit'' else []))
               else es)
         else [])"

definition apply_cpu_limit :: "kernel \<Rightarrow> container_t \<Rightarrow> event list" where
  "apply_cpu_limit k c =
     (let l = limits (config c)
      in if 0 <s cpu_quota_us l then
           (let period = (if 0 <s cpu_period_us l then cpu_period_us l else 100000);
                (r, es) = write_cgroup_value k
                            (snprintf PATH_MAX (cgroup_path c @ ''/cpu.max''))
                            (snprintf 128 (fmt_d (sint (cpu_quota_us l)) @ '' ''
                                           @ fmt_d (sint period)))
            in es @ (if r \<noteq> MC_OK then mc_log 2 ''Could not set CPU limit''
                     else mc_log 1 ''Set CPU limit: %d/%d us''))
         else [])"

definition apply_cpu_weight :: "kernel \<Rightarrow> container_t \<Rightarrow> event list" where
  "apply_cpu_weight k c =
     (let l = limits (config c)
      in if 0 <s cpu_shares l then
           (let weight = sint (cpu_shares l * 100) sdiv 1024;
                weight = (if weight < 1 then 1 else weight);
                weight = (if weight > 10000 then 10000 else weight);
                (r, es) = write_cgroup_value k
                            (snprintf PATH_MAX (cgroup_path c @ ''/cpu.weight''))
                            (snprintf 128 (fmt_d weight))
            in es @ (if r \<noteq> MC_OK then mc_log 2 ''Could not set CPU weight'' else []))
         else [])"

definition apply_pid_limit :: "kernel \<Rightarrow> container_t \<Rightarrow> event list" where
  "apply_pid_limit k c =
     (let l = limits (config c)
      in if 0 <s pids_max l then
           (let (r, es) = write_cgroup_value k
                            (snprintf PATH_MAX (cgroup_path c @ ''/pids.max''))
                            (snprintf 128 (fmt_d (sint (pids_max l))))
            in es @ (if r \<noteq> MC_OK then mc_log 2 ''Could not set PID limit''
                     else mc_log 1 ''Set PID limit: %d''))
         else [])"

definition cgroup_apply_limits :: "kernel \<Rightarrow> container_t \<Rightarrow> mc_error_t \<times> event list" where
  "cgroup_apply_limits k c =
     (MC_OK, apply_memory_limit k c @ apply_cpu_limit k c @ apply_cpu_weight k c
             @ apply_pid_limit k c)"

text \<open>The values a run writes to the file at \<open>path\<close>, and all its file writes.\<close>

fun file_write :: "event \<Rightarrow> (string \<times> string) list" where
  "file_write (Call (Write (File p) v)) = [(p, v)]"
| "file_write e = []"

definition file_writes :: "event list \<Rightarrow> (string \<times> string) list" where
  "file_writes es = concat (map file_write es)"

definition written_to :: "string \<Rightarrow> event list \<Rightarrow> string list" where
  "written_to path es = map snd (filter (\<lambda>w. fst w = path) (file_writes es))"

text \<open>The files a run opens for writing.\<close>

fun file_open :: "event \<Rightarrow> string list" where
  "file_open (Call (Open_wronly p)) = [p]"
| "file_open e = []"

definition opened :: "event list \<Rightarrow> string list" where
  "opened es = concat (map file_open es)"

text \<open>The specification's \<open>clamp(x, lo, hi)\<close>.\<close>

definition clamp :: "int \<Rightarrow> int \<Rightarrow> int \<Rightarrow> int" where
  "clamp x lo hi = max lo (min hi x)"

text \<open>A record with the cpu axes, or the pid axis, of its limits set to zero.\<close>

definition zero_cpu_axes :: "container_t \<Rightarrow> container_t" where
  "zero_cpu_axes c =
     c\<lparr>config := (config c)\<lparr>limits := (limits (config c))\<lparr>cpu_shares := 0, cpu_quota_us := 0\<rparr>\<rparr>\<rparr>"

definition zero_pids_axis :: "container_t \<Rightarrow> container_t" where
  "zero_pids_axis c =
     c\<lparr>config := (config c)\<lparr>limits := (limits (config c))\<lparr>pids_max := 0\<rparr>\<rparr>\<rparr>"

subsection \<open>Reading interface files\<close>

text \<open>
  The C library's scanning, as far as the code uses it: \<open>isspace\<close> and \<open>isdigit\<close> in
  the C locale; \<open>strtol\<close> in base 10, which skips white space, takes an optional sign
  and the longest run of digits, and saturates at the bounds of \<open>long\<close> (\<open>None\<close> when
  there is no digit); \<open>fgets\<close>, which reads up to \<open>n - 1\<close> characters and stops
  after a newline.
\<close>

definition isspace :: "char \<Rightarrow> bool" where
  "isspace c = (c \<in> {CHR '' '', CHR 0x09, CHR 0x0A, CHR 0x0B, CHR 0x0C, CHR 0x0D})"

definition isdigit :: "char \<Rightarrow> bool" where
  "isdigit c = (c \<in> set ''0123456789'')"

definition digit_val :: "char \<Rightarrow> nat" where
  "digit_val c = of_char c - 48"

fun digits_value :: "nat \<Rightarrow> string \<Rightarrow> nat" where
  "digits_value acc [] = acc"
| "digits_value acc (c # cs) = digits_value (10 * acc + digit_val c) cs"

definition LONG_MAX :: int where
  "LONG_MAX = 2 ^ 63 - 1"

definition LONG_MIN :: int where
  "LONG_MIN = - (2 ^ 63)"

definition strtol :: "string \<Rightarrow> (int \<times> string) option" where
  "strtol s =
     (let s1 = dropWhile isspace s;
          neg = (s1 \<noteq> [] \<and> hd s1 = CHR ''-'');
          s2 = (if s1 \<noteq> [] \<and> (hd s1 = CHR ''-'' \<or> hd s1 = CHR ''+'') then tl s1 else s1);
          ds = takeWhile isdigit s2
      in if ds = [] then None
         else
           let v = int (digits_value 0 ds);
               v = (if neg then - v else v)
           in Some (max LONG_MIN (min LONG_MAX v), dropWhile isdigit s2))"



fun fgets :: "nat \<Rightarrow> string \<Rightarrow> string \<times> string" where
  "fgets n [] = ([], [])"
| "fgets n (c # cs) =
     (if n \<le> 1 then ([], c # cs)
      else if c = CHR 0x0A then ([c], cs)
      else (let (l, r) = fgets (n - 1) cs in (c # l, r)))"

lemma fgets_rest_le: "length (snd (fgets n s)) \<le> length s"
  by (induction n s rule: fgets.induct) (auto split: prod.splits)

lemma fgets_rest_less: "1 < n \<Longrightarrow> s \<noteq> [] \<Longrightarrow> length (snd (fgets n s)) < length s"
proof (cases s)
  case Nil
  assume "s \<noteq> []"
  with Nil show ?thesis by simp
next
  case (Cons c cs)
  assume "1 < n"
  with Cons fgets_rest_le [of "n - 1" cs] show ?thesis
    by (auto split: prod.splits)
qed

text \<open>The chunks a \<open>while (fgets(buf, n, fp))\<close> loop sees.\<close>

function file_lines :: "nat \<Rightarrow> string \<Rightarrow> string list" where
  "file_lines n s =
     (if n \<le> 1 \<or> s = [] then []
      else fst (fgets n s) # file_lines n (snd (fgets n s)))"
  by pat_completeness auto
termination
  by (relation "measure (\<lambda>(n, s). length s)") (auto simp: fgets_rest_less)

declare file_lines.simps [simp del]








section \<open>Lifecycle: create and list (container.c)\<close>

definition generate_container_id :: "kernel \<Rightarrow> string \<times> event list" where
  "generate_container_id k =
     (map (\<lambda>i. ''0123456789abcdef'' ! (rand_answer k i mod 16)) [0..<12],
      [Call Time, Call Getpid, Call Srand] @ replicate 12 (Call Rand))"

text \<open>
  \<open>container_create\<close>: \<open>None\<close> is the record when \<open>calloc\<close> fails. \<open>calloc\<close> zeroes
  the record, so the cgroup path is empty until \<open>cgroup_init\<close> sets it.
\<close>

definition container_create ::
  "kernel \<Rightarrow> container_config_t \<Rightarrow> int \<times> container_t option \<times> event list" where
  "container_create k cfg0 =
     (if sys k Calloc = 0 then (mc_code MC_ERR_MEMORY, None, [Call Calloc])
      else
        let (cfg1, es_id) =
              (if id_field cfg0 = []
               then (cfg0\<lparr>id_field := fst (generate_container_id k)\<rparr>,
                     snd (generate_container_id k))
               else (cfg0, []));
            cfg2 = (if name cfg1 = [] then cfg1\<lparr>name := take 255 (id_field cfg1)\<rparr> else cfg1);
            cfg3 = (if hostname cfg2 = [] then cfg2\<lparr>hostname := take 255 (name cfg2)\<rparr>
                    else cfg2);
            sd = snprintf PATH_MAX (''/var/lib/minicontainer/containers/'' @ id_field cfg3);
            mk = snprintf PATH_MAX (''mkdir -p '' @ sd);
            c = \<lparr>config = cfg3, state = CONTAINER_CREATED, pid = 0, exit_code = 0,
                 cgroup_path = [], state_dir = sd, created_at = time_now k,
                 started_at = 0, stopped_at = 0\<rparr>;
            (r_init, c1, es_init) = cgroup_init k c;
            es_init = es_init @ (if r_init \<noteq> MC_OK
                                 then mc_log 2 ''Could not initialize cgroup'' else []);
            (r_lim, es_lim) = cgroup_apply_limits k c1;
            es_lim = es_lim @ (if r_lim \<noteq> MC_OK
                               then mc_log 2 ''Could not apply limits'' else []);
            (r_save, es_save) = save_container_state k c1
        in (mc_code MC_OK, Some c1,
            [Call Calloc] @ es_id @ [Call (System mk), Call Time] @ es_init @ es_lim
              @ es_save @ mc_log 1 ''Created container: %s (%s)''))"

text \<open>
  The conversions of \<open>sscanf\<close> in \<open>container_list\<close>: a literal prefix followed by
  \<open>%Ns\<close> (skip white space, then at most \<open>N\<close> characters that are not white space)
  or by \<open>%d\<close>. The result is the converted value when \<open>sscanf\<close> returns 1.
\<close>

definition sscanf_s :: "string \<Rightarrow> nat \<Rightarrow> string \<Rightarrow> string option" where
  "sscanf_s lit n line =
     (if take (length lit) line = lit then
        (let tok = take n (takeWhile (\<lambda>c. \<not> isspace c)
                             (dropWhile isspace (drop (length lit) line)))
         in if tok = [] then None else Some tok)
      else None)"

definition sscanf_d :: "string \<Rightarrow> string \<Rightarrow> int option" where
  "sscanf_d lit line =
     (if take (length lit) line = lit then
        map_option (\<lambda>(v, rest). sint (word_of_int v :: c_int)) (strtol (drop (length lit) line))
      else None)"

definition zero_config :: container_config_t where
  "zero_config =
     \<lparr>id_field = [], name = [], hostname = [], rootfs = [], cmd = [], cmd_count = 0,
      env = [], env_count = 0,
      limits = \<lparr>memory_limit_bytes = 0, memory_swap_bytes = 0, cpu_shares = 0,
                cpu_quota_us = 0, cpu_period_us = 0, pids_max = 0\<rparr>,
      enable_network = 0, enable_user_ns = 0, uid_map_host = 0, uid_map_container = 0,
      gid_map_host = 0, gid_map_container = 0\<rparr>"

definition zero_container :: container_t where
  "zero_container =
     \<lparr>config = zero_config, state = CONTAINER_CREATED, pid = 0, exit_code = 0,
      cgroup_path = [], state_dir = [], created_at = 0, started_at = 0, stopped_at = 0\<rparr>"

text \<open>The body of the loop over the lines of a state file.\<close>

definition parse_state_line :: "container_t \<Rightarrow> string \<Rightarrow> container_t" where
  "parse_state_line c line =
     (case sscanf_s ''id='' 64 line of
        Some v \<Rightarrow> c\<lparr>config := (config c)\<lparr>id_field := v\<rparr>\<rparr>
      | None \<Rightarrow>
     (case sscanf_s ''name='' 255 line of
        Some v \<Rightarrow> c\<lparr>config := (config c)\<lparr>name := v\<rparr>\<rparr>
      | None \<Rightarrow>
     (case sscanf_d ''pid='' line of
        Some v \<Rightarrow> c\<lparr>pid := v\<rparr>
      | None \<Rightarrow>
     (case sscanf_s ''state='' 31 line of
        Some st \<Rightarrow>
          c\<lparr>state := (if st = ''running'' then CONTAINER_RUNNING
                       else if st = ''stopped'' then CONTAINER_STOPPED
                       else CONTAINER_CREATED)\<rparr>
      | None \<Rightarrow> c))))"

text \<open>
  One round of the \<open>readdir\<close> loop: \<open>None\<close> when the entry is skipped. The heap is
  taken to serve the record and the list; the C code does not check these allocations.
\<close>

definition load_entry :: "kernel \<Rightarrow> string \<Rightarrow> string \<Rightarrow> container_t option" where
  "load_entry k path d_name =
     (if d_name \<noteq> [] \<and> hd d_name = CHR ''.'' then None
      else
        case file_content k (snprintf PATH_MAX (path @ ''/'' @ d_name @ ''/state.txt'')) of
          None \<Rightarrow> None
        | Some s \<Rightarrow>
            let c = foldl parse_state_line zero_container (file_lines 256 s)
            in Some (c\<lparr>state_dir := snprintf PATH_MAX (path @ ''/'' @ d_name),
                       cgroup_path := snprintf PATH_MAX (''/sys/fs/cgroup/minicontainer/''
                                                         @ id_field (config c))\<rparr>))"

text \<open>
  \<open>container_list\<close> returns the C return value, the list (\<open>None\<close> for the NULL
  pointer) and the count.
\<close>

definition container_list :: "kernel \<Rightarrow> mc_error_t \<times> container_t list option \<times> int" where
  "container_list k =
     (let path = snprintf PATH_MAX ''/var/lib/minicontainer/containers''
      in case dir_entries k path of
           None \<Rightarrow> (MC_OK, None, 0)
         | Some ents \<Rightarrow>
             let l = List.map_filter (load_entry k path) ents
             in (MC_OK, Some l, int (length l)))"

section \<open>The spawn as two processes\<close>

text \<open>
  The parent and the cloned child run side by side. A run of the spawn is a list of the
  events of both, each tagged with its process. The runs are generated like the traces of
  a protocol: the parent's events are those of \<open>ns_create\<close> and the child's those of
  \<open>container_child\<close>, each in program order; the child makes no step before the
  parent's \<open>clone\<close>; and the child's one-byte read blocks, so it can only return 1
  when the parent has written the byte (the pipe is created by \<open>ns_create\<close>, and the
  child closes its copy of the write end without writing). A child that is killed, or
  not scheduled, simply makes no further step.
\<close>

datatype proc = Parent | Child

definition events_of :: "proc \<Rightarrow> (proc \<times> event) list \<Rightarrow> event list" where
  "events_of p tr = map snd (filter (\<lambda>x. fst x = p) tr)"

text \<open>The parent's write of the release byte.\<close>

definition release_byte :: event where
  "release_byte = Call (Write SyncPipeWr ''x'')"

text \<open>The calls that touch the hostname (UTS) or the mounts and the root.\<close>

definition namespace_work :: "event \<Rightarrow> bool" where
  "namespace_work e =
     (case e of
        Call c \<Rightarrow>
          (case c of
             Sethostname h \<Rightarrow> True
           | Mount s t f fl d \<Rightarrow> True
           | Pivot_root n old \<Rightarrow> True
           | Umount2_detach p \<Rightarrow> True
           | Mkdir p m \<Rightarrow> True
           | Rmdir p \<Rightarrow> True
           | Chdir p \<Rightarrow> True
           | Mknod p m ma mi \<Rightarrow> True
           | Symlink t l \<Rightarrow> True
           | Stat p \<Rightarrow> True
           | _ \<Rightarrow> False)
      | Log lvl msg \<Rightarrow> False)"

inductive_set spawn_runs ::
  "kernel \<Rightarrow> kernel \<Rightarrow> container_config_t \<Rightarrow> (proc \<times> event) list set"
  for kp :: kernel and kc :: kernel and cfg :: container_config_t where
  start: "[] \<in> spawn_runs kp kc cfg"
| parent_step:
    "tr \<in> spawn_runs kp kc cfg \<Longrightarrow>
     events_of Parent tr @ e # rest = snd (ns_create kp cfg) \<Longrightarrow>
     tr @ [(Parent, e)] \<in> spawn_runs kp kc cfg"
| child_step:
    "tr \<in> spawn_runs kp kc cfg \<Longrightarrow>
     events_of Child tr @ e # rest = snd (container_child kc cfg) \<Longrightarrow>
     list_ex is_clone (events_of Parent tr) \<Longrightarrow>
     (e = Call (Read SyncPipeRd 1) \<and> sys kc (Read SyncPipeRd 1) = 1
        \<longrightarrow> release_byte \<in> set (events_of Parent tr)) \<Longrightarrow>
     tr @ [(Child, e)] \<in> spawn_runs kp kc cfg"

text \<open>The schedule in which the parent runs to its end before the child's first \<open>m\<close> events.\<close>

definition sequential_run ::
  "kernel \<Rightarrow> kernel \<Rightarrow> container_config_t \<Rightarrow> nat \<Rightarrow> (proc \<times> event) list" where
  "sequential_run kp kc cfg m =
     map (Pair Parent) (snd (ns_create kp cfg))
       @ map (Pair Child) (take m (snd (container_child kc cfg)))"

text \<open>
  The pid the clone answers, the files of \<open>/proc/<pid>\<close>, a single-row map
  \<open>"<inside> <outside> 1"\<close>, and the three calls that install the maps.
\<close>

definition child_pid :: "kernel \<Rightarrow> container_config_t \<Rightarrow> int" where
  "child_pid kp cfg = sys kp (Clone (insert SIGCHLD (get_ns_flags cfg)))"

definition proc_file :: "int \<Rightarrow> string \<Rightarrow> string" where
  "proc_file p f = snprintf PATH_MAX (''/proc/'' @ fmt_d p @ f)"

definition map_row :: "nat \<Rightarrow> nat \<Rightarrow> string" where
  "map_row inside outside = snprintf 256 (fmt_u inside @ '' '' @ fmt_u outside @ '' 1\<newline>'')"

definition maps_installed :: "kernel \<Rightarrow> container_config_t \<Rightarrow> event list" where
  "maps_installed kp cfg =
     [Call (Open_wronly (proc_file (child_pid kp cfg) ''/setgroups'')),
      Call (Write (File (proc_file (child_pid kp cfg) ''/uid_map''))
              (map_row (uid_map_container cfg) (uid_map_host cfg))),
      Call (Write (File (proc_file (child_pid kp cfg) ''/gid_map''))
              (map_row (gid_map_container cfg) (gid_map_host cfg)))]"

text \<open>
  The open of \<open>setgroups\<close>, the write of \<open>deny\<close> to it, and the writes of the two
  maps.
\<close>

definition deny_and_maps :: "kernel \<Rightarrow> container_config_t \<Rightarrow> event list" where
  "deny_and_maps kp cfg =
     [Call (Open_wronly (proc_file (child_pid kp cfg) ''/setgroups'')),
      Call (Write (File (proc_file (child_pid kp cfg) ''/setgroups'')) ''deny''),
      Call (Write (File (proc_file (child_pid kp cfg) ''/uid_map''))
              (map_row (uid_map_container cfg) (uid_map_host cfg))),
      Call (Write (File (proc_file (child_pid kp cfg) ''/gid_map''))
              (map_row (gid_map_container cfg) (gid_map_host cfg)))]"

section \<open>Concrete inputs\<close>

fun is_clone :: "event \<Rightarrow> bool" where
  "is_clone (Call (Clone fl)) = True"
| "is_clone e = False"

definition spawned :: "event list \<Rightarrow> bool" where
  "spawned es = list_ex is_clone es"

text \<open>A kernel on which every call succeeds: the clone returns pid 4242.\<close>

definition friendly_sys :: "call \<Rightarrow> int" where
  "friendly_sys c =
     (case c of Clone fl \<Rightarrow> 4242 | Fork \<Rightarrow> 4243 | Malloc n \<Rightarrow> 1 | Calloc \<Rightarrow> 1
      | Fopen_w p \<Rightarrow> 1
      | Fopen_r p \<Rightarrow> 1 | Open_wronly p \<Rightarrow> 3 | Open_rdonly p \<Rightarrow> 3
      | Write f s \<Rightarrow> int (length s) | Read f n \<Rightarrow> int n | _ \<Rightarrow> 0)"

definition friendly_kernel :: kernel where
  "friendly_kernel =
     \<lparr>sys = friendly_sys, wait_answer = (\<lambda>opt i. (4242, 0)),
      stat_is_dir = (\<lambda>p. True), file_content = (\<lambda>p. None), dir_entries = (\<lambda>p. None),
      rand_answer = (\<lambda>i. i), time_now = 1700000000, self_pid = 100\<rparr>"

definition plain_limits :: resource_limits_t where
  "plain_limits =
     \<lparr>memory_limit_bytes = 0, memory_swap_bytes = 0, cpu_shares = 0, cpu_quota_us = 0,
      cpu_period_us = 100000, pids_max = 0\<rparr>"

definition plain_config :: container_config_t where
  "plain_config =
     \<lparr>id_field = ''abc'', name = ''web'', hostname = ''web'', rootfs = ''/tmp/alpine'',
      cmd = [], cmd_count = 0, env = [], env_count = 0, limits = plain_limits,
      enable_network = 0, enable_user_ns = 0, uid_map_host = 1000, uid_map_container = 0,
      gid_map_host = 1000, gid_map_container = 0\<rparr>"

definition record_in :: "container_state_t \<Rightarrow> container_t" where
  "record_in st =
     \<lparr>config = plain_config, state = st, pid = 0, exit_code = 0,
      cgroup_path = ''/sys/fs/cgroup/kernelsight/abc'',
      state_dir = ''/var/lib/minicontainer/containers/abc'',
      created_at = 1699999999, started_at = 0, stopped_at = 0\<rparr>"

text \<open>The friendly kernel with every \<open>waitpid\<close> answering \<open>a\<close>.\<close>

definition kernel_waiting :: "int \<times> int \<Rightarrow> kernel" where
  "kernel_waiting a = friendly_kernel\<lparr>wait_answer := (\<lambda>opt i. a)\<rparr>"

text \<open>A running record whose \<open>exit_code\<close> field still holds an old value, 77.\<close>

definition running_record :: container_t where
  "running_record = (record_in CONTAINER_RUNNING)\<lparr>pid := 4242, exit_code := 77\<rparr>"

text \<open>Records with one limit set: 50 MiB of memory, or \<open>s\<close> cpu shares.\<close>

definition memory_record :: container_t where
  "memory_record =
     (record_in CONTAINER_CREATED)\<lparr>config := plain_config\<lparr>limits :=
        plain_limits\<lparr>memory_limit_bytes := 52428800\<rparr>\<rparr>\<rparr>"

definition shares_record :: "c_int \<Rightarrow> container_t" where
  "shares_record s =
     (record_in CONTAINER_CREATED)\<lparr>config := plain_config\<lparr>limits :=
        plain_limits\<lparr>cpu_shares := s\<rparr>\<rparr>\<rparr>"

text \<open>Kernels on which the final unmount fails, or nothing is a directory.\<close>

definition umount_fails :: kernel where
  "umount_fails =
     friendly_kernel\<lparr>sys := (\<lambda>c. if c = Umount2_detach ''/.old_root'' then - 22
                                   else friendly_sys c)\<rparr>"

definition no_directory :: kernel where
  "no_directory = friendly_kernel\<lparr>stat_is_dir := (\<lambda>p. False)\<rparr>"

text \<open>A kernel without cgroup v2, and a configuration that names nothing.\<close>

definition no_cgroup_v2 :: kernel where
  "no_cgroup_v2 =
     friendly_kernel\<lparr>sys := (\<lambda>c. if c = Stat ''/sys/fs/cgroup/cgroup.controllers'' then - 2
                                   else friendly_sys c)\<rparr>"

definition empty_config :: container_config_t where
  "empty_config = plain_config\<lparr>id_field := [], name := [], hostname := []\<rparr>"




text \<open>The plain configuration with a user namespace.\<close>

definition userns_config :: container_config_t where
  "userns_config = plain_config\<lparr>enable_user_ns := 1\<rparr>"

text \<open>
  A kernel whose state directory holds the container \<open>abc\<close>, its state file as
  \<open>save_container_state\<close> writes it for the running record.
\<close>

definition store_kernel :: kernel where
  "store_kernel =
     friendly_kernel\<lparr>
       dir_entries := (\<lambda>p. if p = ''/var/lib/minicontainer/containers''
                             then Some [''.'', ''..'', ''abc''] else None),
       file_content := (\<lambda>p. if p = ''/var/lib/minicontainer/containers/abc/state.txt''
                              then Some (state_file_text running_record) else None)\<rparr>"

text \<open>A kernel that cannot create the pipe (too many open files).\<close>

definition no_pipe :: kernel where
  "no_pipe = friendly_kernel\<lparr>sys := (\<lambda>c. if c = Pipe then - 24 else friendly_sys c)\<rparr>"

text \<open>
  A kernel on which the state file of the container \<open>0123456789ab\<close> cannot be opened,
  and one whose state directory already holds a container of that id.
\<close>

definition no_state_file :: kernel where
  "no_state_file =
     friendly_kernel\<lparr>sys :=
       (\<lambda>c. if c = Fopen_w ''/var/lib/minicontainer/containers/0123456789ab/state.txt''
             then 0 else friendly_sys c)\<rparr>"

definition id_in_use :: kernel where
  "id_in_use =
     friendly_kernel\<lparr>dir_entries :=
       (\<lambda>p. if p = ''/var/lib/minicontainer/containers''
             then Some [''.'', ''..'', ''0123456789ab''] else None)\<rparr>"

text \<open>
  A kernel that refuses the open of \<open>setgroups\<close> of the child (error \<open>EACCES\<close>).
\<close>

definition setgroups_refused :: kernel where
  "setgroups_refused =
     friendly_kernel\<lparr>sys := (\<lambda>c. if c = Open_wronly ''/proc/4242/setgroups'' then - 13
                                   else friendly_sys c)\<rparr>"

section \<open>Evaluation of the model on concrete inputs\<close>

lemmas log_simps = mc_log_def log_level_def

lemmas buf_simps = snprintf_def PATH_MAX_def STACK_SIZE_def fmt_d_def fmt_u_def digits10.simps

lemmas friendly_simps = friendly_kernel_def friendly_sys_def plain_config_def
  plain_limits_def record_in_def

lemma ns_create_friendly:
  "ns_create friendly_kernel plain_config =
     (4242, [Call Pipe, Call (Malloc 1048576),
             Call (Clone {SIGCHLD, CLONE_NEWPID, CLONE_NEWNS, CLONE_NEWUTS, CLONE_NEWIPC,
                          CLONE_NEWCGROUP}),
             Log 1 ''Created container process with PID: %d'',
             Call (Close SyncPipeRd), Call (Write SyncPipeWr ''x''), Call (Close SyncPipeWr)])"
  by (simp add: ns_create_def get_ns_flags_def Let_def log_simps buf_simps friendly_simps)

lemma container_start_friendly:
  "st \<noteq> CONTAINER_RUNNING \<Longrightarrow>
   container_start friendly_kernel (record_in st) =
     (0, (record_in st)\<lparr>pid := 4242, state := CONTAINER_RUNNING, started_at := 1700000000\<rparr>,
      snd (ns_create friendly_kernel plain_config)
      @ [Call Time,
         Call (Open_wronly ''/sys/fs/cgroup/kernelsight/abc/cgroup.procs''),
         Call (Write (File ''/sys/fs/cgroup/kernelsight/abc/cgroup.procs'') ''4242''),
         Call (Close (File ''/sys/fs/cgroup/kernelsight/abc/cgroup.procs'')),
         Log 1 ''Added PID %d to cgroup'',
         Call (Fopen_w ''/var/lib/minicontainer/containers/abc/state.txt''),
         Call (Fprintf ''/var/lib/minicontainer/containers/abc/state.txt''
                 ''id=abc\<newline>name=web\<newline>state=running\<newline>pid=4242\<newline>''),
         Call (Fclose ''/var/lib/minicontainer/containers/abc/state.txt''),
         Log 1 ''Started container: %s (PID %d)''])"
proof -
  assume st: "st \<noteq> CONTAINER_RUNNING"
  have cfg: "config (record_in st) = plain_config"
    by (simp add: record_in_def)
  have start: "container_start friendly_kernel (record_in st) =
     (let c' = record_in st\<lparr>pid := 4242, state := CONTAINER_RUNNING,
                            started_at := time_now friendly_kernel\<rparr>;
          (r1, es1) = cgroup_add_pid friendly_kernel c' 4242;
          (r2, es2) = save_container_state friendly_kernel c'
      in (mc_code MC_OK, c',
          snd (ns_create friendly_kernel plain_config) @ [Call Time] @ es1 @ es2
            @ mc_log 1 ''Started container: %s (PID %d)''))"
    using st by (simp add: container_start_def cfg ns_create_friendly record_in_def)
  show ?thesis
    unfolding start
    by (simp add: record_in_def cgroup_add_pid_def write_cgroup_value_def
        save_container_state_def state_file_text_def Let_def log_simps buf_simps
        friendly_kernel_def friendly_sys_def plain_config_def)
qed

section \<open>Claims about start\<close>

text \<open>
  C1, as the code has it. \<open>container_start\<close> is rejected exactly when the record is
  in state running: it then returns \<open>MC_ERR_INVALID\<close>, leaves the record as it was
  and makes no call at all. In every other state (created, stopped, and also paused and
  deleted) it runs the spawn \<open>ns_create\<close> first; a negative answer of the spawn is
  returned with the record unchanged, and otherwise the start succeeds with the record
  running under the returned pid.
\<close>

theorem container_start_rejects_only_running:
  "(state c = CONTAINER_RUNNING \<longrightarrow>
      container_start k c = (mc_code MC_ERR_INVALID, c, []))
   \<and> (state c \<noteq> CONTAINER_RUNNING \<longrightarrow>
      (\<exists>es. snd (snd (container_start k c)) = snd (ns_create k (config c)) @ es)
      \<and> (fst (ns_create k (config c)) < 0 \<longrightarrow>
            fst (container_start k c) = fst (ns_create k (config c))
            \<and> fst (snd (container_start k c)) = c)
      \<and> (0 \<le> fst (ns_create k (config c)) \<longrightarrow>
            fst (container_start k c) = mc_code MC_OK
            \<and> state (fst (snd (container_start k c))) = CONTAINER_RUNNING
            \<and> pid (fst (snd (container_start k c))) = fst (ns_create k (config c))))"
  by (auto simp: container_start_def Let_def split: prod.splits)

theorem container_start_rejects_only_running_witness:
  "container_start friendly_kernel (record_in CONTAINER_RUNNING)
     = (- 8, record_in CONTAINER_RUNNING, [])
   \<and> fst (container_start friendly_kernel (record_in CONTAINER_STOPPED)) = 0
   \<and> state (fst (snd (container_start friendly_kernel (record_in CONTAINER_STOPPED))))
       = CONTAINER_RUNNING
   \<and> pid (fst (snd (container_start friendly_kernel (record_in CONTAINER_STOPPED)))) = 4242
   \<and> fst (ns_create no_pipe plain_config) = - 10
   \<and> fst (container_start no_pipe (record_in CONTAINER_CREATED)) = - 10
   \<and> fst (snd (container_start no_pipe (record_in CONTAINER_CREATED)))
       = record_in CONTAINER_CREATED"
proof -
  have cfg: "config (record_in st) = plain_config" for st
    by (simp add: record_in_def)
  have st: "state (record_in st) = st" for st
    by (simp add: record_in_def)
  have failed: "fst (ns_create no_pipe plain_config) = - 10"
    by (simp add: ns_create_def no_pipe_def)
  show ?thesis
    using container_start_rejects_only_running
            [of "record_in CONTAINER_RUNNING" friendly_kernel]
          container_start_rejects_only_running
            [of "record_in CONTAINER_STOPPED" friendly_kernel]
          container_start_rejects_only_running
            [of "record_in CONTAINER_CREATED" no_pipe]
    by (simp add: cfg st ns_create_friendly failed)
qed

text \<open>
  C1 as the specification states it fails: on a record in state paused, and on one in
  state deleted, the start is not rejected. With a kernel that lets every call succeed it
  returns \<open>MC_OK\<close> and the child has been cloned.
\<close>

theorem container_start_paused_deleted_spawn:
  "state (record_in CONTAINER_PAUSED) = CONTAINER_PAUSED
   \<and> fst (container_start friendly_kernel (record_in CONTAINER_PAUSED)) = mc_code MC_OK
   \<and> spawned (snd (snd (container_start friendly_kernel (record_in CONTAINER_PAUSED))))
   \<and> state (record_in CONTAINER_DELETED) = CONTAINER_DELETED
   \<and> fst (container_start friendly_kernel (record_in CONTAINER_DELETED)) = mc_code MC_OK
   \<and> spawned (snd (snd (container_start friendly_kernel (record_in CONTAINER_DELETED))))"
  by (simp add: container_start_friendly ns_create_friendly spawned_def)
    (simp add: record_in_def)

section \<open>Claims about stop\<close>

lemma stop_poll_record:
  "stop_poll k c lim i = (returned, c', es) \<Longrightarrow>
     (returned \<longrightarrow> state c' = CONTAINER_STOPPED \<and> stopped_at c' = time_now k)
     \<and> (\<not> returned \<longrightarrow> c' = c)"
proof (induction k c lim i arbitrary: returned c' es rule: stop_poll.induct)
  case (1 k c lim i)
  show ?case
  proof (cases "i < lim")
    case False
    with "1.prems" show ?thesis by (simp add: stop_poll.simps)
  next
    case True
    obtain r status where w: "wait_answer k WNOHANG (nat i) = (r, status)"
      by (cases "wait_answer k WNOHANG (nat i)")
    show ?thesis
    proof (cases "r > 0")
      case True
      with \<open>i < lim\<close> w "1.prems" show ?thesis
        by (auto simp: stop_poll.simps [of k c lim i] Let_def)
    next
      case False
      obtain b c2 es2 where rec: "stop_poll k c lim (i + 1) = (b, c2, es2)"
        by (cases "stop_poll k c lim (i + 1)")
      from False \<open>i < lim\<close> w rec "1.prems" have "returned = b" "c' = c2"
        by (auto simp: stop_poll.simps [of k c lim i] Let_def)
      with "1.IH" [OF \<open>i < lim\<close> w [symmetric] refl False rec] show ?thesis by simp
    qed
  qed
qed

lemma stop_poll_polls:
  "length (filter (\<lambda>e. e = Call (Waitpid (pid c) WNOHANG)) (snd (snd (stop_poll k c lim i))))
     \<le> nat (lim - i)"
proof (induction k c lim i rule: stop_poll.induct)
  case (1 k c lim i)
  show ?case
  proof (cases "i < lim")
    case False
    then show ?thesis by (simp add: stop_poll.simps)
  next
    case True
    obtain r status where w: "wait_answer k WNOHANG (nat i) = (r, status)"
      by (cases "wait_answer k WNOHANG (nat i)")
    show ?thesis
    proof (cases "r > 0")
      case True
      with \<open>i < lim\<close> w show ?thesis
        by (simp add: stop_poll.simps [of k c lim i] Let_def save_container_state_def)
    next
      case False
      from "1.IH" [OF \<open>i < lim\<close> w [symmetric] refl False] False \<open>i < lim\<close> w show ?thesis
        by (auto simp: stop_poll.simps [of k c lim i] Let_def split: prod.splits)
    qed
  qed
qed

text \<open>
  What \<open>container_stop\<close> does keep of its contract, for every kernel and every timeout:
  on a record that is not running it is a no-op returning success; on a running record it
  returns success, begins with SIGTERM, polls at most \<open>timeout * 10\<close> times (the product
  taken in 32 bits), and leaves the record stopped with \<open>stopped_at\<close> set.
\<close>

theorem container_stop_contract:
  "(state c \<noteq> CONTAINER_RUNNING \<longrightarrow> container_stop k c t = (mc_code MC_OK, c, []))
   \<and> (state c = CONTAINER_RUNNING \<longrightarrow>
        fst (container_stop k c t) = mc_code MC_OK
        \<and> state (fst (snd (container_stop k c t))) = CONTAINER_STOPPED
        \<and> stopped_at (fst (snd (container_stop k c t))) = time_now k
        \<and> hd (snd (snd (container_stop k c t))) = Call (Kill (pid c) SIGTERM)
        \<and> length (filter (\<lambda>e. e = Call (Waitpid (pid c) WNOHANG))
                     (snd (snd (container_stop k c t)))) \<le> nat (sint (t * 10)))"
proof -
  obtain b c1 es where p: "stop_poll k c (sint (t * 10)) 0 = (b, c1, es)"
    by (cases "stop_poll k c (sint (t * 10)) 0")
  note rec = stop_poll_record [OF p]
  have polls: "length (filter (\<lambda>e. e = Call (Waitpid (pid c) WNOHANG)) es)
                 \<le> nat (sint (t * 10))"
    using stop_poll_polls [of c k "sint (t * 10)" 0] p by simp
  show ?thesis
    using rec polls p
    by (auto simp: container_stop_def Let_def save_container_state_def split: prod.splits)
qed

text \<open>
  C3 on a concrete run. The record is running with pid 4242 and the timeout is 1 second.
  When the child answers SIGTERM by exiting with code 1, the first poll reaps it with the
  wait status 256; \<open>container_stop\<close> stores that status, not the exit code 1 that
  \<open>WEXITSTATUS\<close> reads from it, in \<open>exit_code\<close>. When every \<open>waitpid\<close> fails
  (the caller is not the parent of the container's init, error \<open>ECHILD\<close>), the record
  ends stopped with \<open>exit_code\<close> still holding its old value 77.
\<close>

theorem container_stop_keeps_raw_wait_status:
  "exit_code (fst (snd (container_stop (kernel_waiting (4242, 256)) running_record 1))) = 256
   \<and> WIFEXITED 256 \<and> WEXITSTATUS 256 = 1
   \<and> exit_code (fst (snd (container_stop (kernel_waiting (- 10, 0)) running_record 1))) = 77
   \<and> state (fst (snd (container_stop (kernel_waiting (- 10, 0)) running_record 1)))
       = CONTAINER_STOPPED"
  by (simp add: container_stop_def stop_poll.simps kernel_waiting_def running_record_def
      Let_def friendly_simps save_container_state_def state_file_text_def buf_simps
      log_simps WIFEXITED_def WEXITSTATUS_def)

section \<open>Claims about exec and list\<close>

lemma exited_not_signaled: "WIFEXITED status \<Longrightarrow> \<not> WIFSIGNALED status"
  by (simp add: WIFEXITED_def WIFSIGNALED_def)

text \<open>
  C10. Let the preconditions of \<open>container_exec\<close> pass (record and command present,
  positive count, state running, positive pid, the probe with signal 0 succeeds), the
  fork succeed in the parent and the blocking \<open>waitpid\<close> succeed with a status. A
  \<open>waitpid\<close> without options reports a child that exited or was killed by a signal.
  Then the function returns \<open>MC_OK\<close> if and only if the helper exited with code 0 or
  was terminated by a signal, and a normal exit with a nonzero code gives
  \<open>MC_ERR_PROCESS\<close>: a command killed by a signal returns what a successful one does.
\<close>

theorem container_exec_result:
  assumes "state c = CONTAINER_RUNNING" and "0 < pid c" and "0 < cmd_cnt"
    and "sys k (Kill (pid c) SIGNULL) = 0" and "0 < sys k Fork"
    and "wait_answer k WBLOCK 0 = (r, status)" and "0 \<le> r"
    and "WIFEXITED status \<or> WIFSIGNALED status"
  shows "(fst (container_exec k (Some c) (Some cmdv) cmd_cnt) = Returned MC_OK
            \<longleftrightarrow> (WIFEXITED status \<and> WEXITSTATUS status = 0) \<or> WIFSIGNALED status)
       \<and> (WIFEXITED status \<and> WEXITSTATUS status \<noteq> 0
            \<longrightarrow> fst (container_exec k (Some c) (Some cmdv) cmd_cnt) = Returned MC_ERR_PROCESS)"
  using assms exited_not_signaled [of status]
  by (auto simp: container_exec_def Let_def)

theorem container_exec_result_witness:
  "fst (container_exec (kernel_waiting (4243, 9)) (Some running_record)
          (Some [''/bin/true'']) 1) = Returned MC_OK
   \<and> WIFSIGNALED 9
   \<and> fst (container_exec (kernel_waiting (4243, 256)) (Some running_record)
          (Some [''/bin/false'']) 1) = Returned MC_ERR_PROCESS
   \<and> WIFEXITED 256 \<and> WEXITSTATUS 256 = 1"
proof -
  have rec: "state running_record = CONTAINER_RUNNING" "0 < pid running_record"
    by (simp_all add: running_record_def record_in_def)
  have k: "sys (kernel_waiting a) (Kill (pid running_record) SIGNULL) = 0"
    "0 < sys (kernel_waiting a) Fork" "wait_answer (kernel_waiting a) WBLOCK 0 = a" for a
    by (simp_all add: kernel_waiting_def friendly_kernel_def friendly_sys_def)
  have m9: "WIFSIGNALED 9" "\<not> WIFEXITED 9"
    by (simp_all add: WIFSIGNALED_def WIFEXITED_def)
  have m256: "WIFEXITED 256" "WEXITSTATUS 256 = 1"
    by (simp_all add: WIFEXITED_def WEXITSTATUS_def)
  have one: "(0::int) < 1" "(0::int) \<le> 4243"
    by simp_all
  from container_exec_result [OF rec one(1) k(1) k(2) k(3) one(2), of 9 "[''/bin/true'']"]
    container_exec_result [OF rec one(1) k(1) k(2) k(3) one(2), of 256 "[''/bin/false'']"]
    m9 m256
  show ?thesis by simp
qed

text \<open>
  \<open>container_list\<close> on a directory that opens: the entries \<open>.\<close> and \<open>..\<close> are
  skipped and the record of \<open>abc\<close> is read back from its state file.
\<close>

lemma state_file_text_running:
  "state_file_text running_record = ''id=abc\<newline>name=web\<newline>state=running\<newline>pid=4242\<newline>''"
  by (simp add: state_file_text_def running_record_def record_in_def plain_config_def
      fmt_d_def digits10.simps)

lemma state_file_lines:
  "file_lines 256 ''id=abc\<newline>name=web\<newline>state=running\<newline>pid=4242\<newline>''
     = [''id=abc\<newline>'', ''name=web\<newline>'', ''state=running\<newline>'', ''pid=4242\<newline>'']"
  by (simp add: file_lines.simps)

lemma parse_lines:
  "parse_state_line c ''id=abc\<newline>'' = c\<lparr>config := (config c)\<lparr>id_field := ''abc''\<rparr>\<rparr>"
  "parse_state_line c ''name=web\<newline>'' = c\<lparr>config := (config c)\<lparr>name := ''web''\<rparr>\<rparr>"
  "parse_state_line c ''state=running\<newline>'' = c\<lparr>state := CONTAINER_RUNNING\<rparr>"
  "parse_state_line c ''pid=4242\<newline>'' = c\<lparr>pid := 4242\<rparr>"
  by (simp_all add: parse_state_line_def sscanf_s_def sscanf_d_def strtol_def isspace_def
      isdigit_def digit_val_def Let_def LONG_MAX_def LONG_MIN_def)

lemma container_list_reads_record:
  "container_list store_kernel =
     (MC_OK,
      Some [zero_container\<lparr>config := zero_config\<lparr>id_field := ''abc'', name := ''web''\<rparr>,
                            state := CONTAINER_RUNNING, pid := 4242,
                            state_dir := ''/var/lib/minicontainer/containers/abc'',
                            cgroup_path := ''/sys/fs/cgroup/minicontainer/abc''\<rparr>],
      1)"
  by (simp add: container_list_def load_entry_def store_kernel_def friendly_kernel_def
      List.map_filter_simps snprintf_def PATH_MAX_def state_file_text_running state_file_lines
      parse_lines zero_container_def)

text \<open>
  C9. When the directory of the containers cannot be opened, \<open>container_list\<close> returns
  \<open>MC_OK\<close> with the NULL list and the count 0.
\<close>

theorem container_list_unopened_dir:
  "dir_entries k ''/var/lib/minicontainer/containers'' = None \<Longrightarrow>
   container_list k = (MC_OK, None, 0)"
  by (simp add: container_list_def snprintf_def PATH_MAX_def)

theorem container_list_unopened_dir_witness:
  "dir_entries friendly_kernel ''/var/lib/minicontainer/containers'' = None
   \<and> container_list friendly_kernel = (MC_OK, None, 0)"
proof -
  have none: "dir_entries friendly_kernel ''/var/lib/minicontainer/containers'' = None"
    by (simp add: friendly_kernel_def)
  from container_list_unopened_dir [OF none] none show ?thesis by simp
qed

section \<open>Claims about resource limits\<close>

lemma digits10_length: "0 < k \<Longrightarrow> n < 10 ^ k \<Longrightarrow> length (digits10 n) \<le> k"
proof (induction k arbitrary: n)
  case 0
  then show ?case by simp
next
  case (Suc k)
  show ?case
  proof (cases "n < 10")
    case True
    then show ?thesis by (simp add: digits10.simps [of n])
  next
    case False
    with Suc.prems have k: "0 < k" by (cases k) auto
    from Suc.prems have "n div 10 < 10 ^ k" by (simp add: less_mult_imp_div_less mult.commute)
    from Suc.IH [OF k this] False show ?thesis by (simp add: digits10.simps [of n])
  qed
qed

lemma file_writes_append [simp]: "file_writes (xs @ ys) = file_writes xs @ file_writes ys"
  by (simp add: file_writes_def)

lemma file_writes_Nil [simp]: "file_writes [] = []"
  by (simp add: file_writes_def)

lemma file_writes_log [simp]: "file_writes (mc_log lvl msg) = []"
  by (simp add: file_writes_def mc_log_def)

lemma file_writes_write_cgroup_value:
  "file_writes (snd (write_cgroup_value k p v)) = (if 0 \<le> sys k (Open_wronly p) then [(p, v)] else [])"
  by (simp add: write_cgroup_value_def file_writes_def mc_log_def)

lemma path_fits:
  "length cp + 16 < PATH_MAX \<Longrightarrow> length sfx \<le> 16 \<Longrightarrow> snprintf PATH_MAX (cp @ sfx) = cp @ sfx"
  by (simp add: snprintf_def)

lemma file_writes_memory:
  assumes "length (cgroup_path c) + 16 < PATH_MAX"
  shows "\<forall>w \<in> set (file_writes (apply_memory_limit k c)).
           fst w = cgroup_path c @ ''/memory.max'' \<or> fst w = cgroup_path c @ ''/memory.swap.max''"
  using assms
  by (auto simp: apply_memory_limit_def Let_def path_fits file_writes_write_cgroup_value
      case_prod_beta)

lemma file_writes_cpu:
  assumes "length (cgroup_path c) + 16 < PATH_MAX"
  shows "\<forall>w \<in> set (file_writes (apply_cpu_limit k c)). fst w = cgroup_path c @ ''/cpu.max''"
  using assms
  by (auto simp: apply_cpu_limit_def Let_def path_fits file_writes_write_cgroup_value
      case_prod_beta)

lemma file_writes_weight:
  assumes "length (cgroup_path c) + 16 < PATH_MAX"
  shows "\<forall>w \<in> set (file_writes (apply_cpu_weight k c)). fst w = cgroup_path c @ ''/cpu.weight''"
  using assms
  by (auto simp: apply_cpu_weight_def Let_def path_fits file_writes_write_cgroup_value
      case_prod_beta)

lemma file_writes_pids:
  assumes "length (cgroup_path c) + 16 < PATH_MAX"
  shows "\<forall>w \<in> set (file_writes (apply_pid_limit k c)). fst w = cgroup_path c @ ''/pids.max''"
  using assms
  by (auto simp: apply_pid_limit_def Let_def path_fits file_writes_write_cgroup_value
      case_prod_beta)

lemma written_to_append [simp]:
  "written_to p (xs @ ys) = written_to p xs @ written_to p ys"
  by (simp add: written_to_def)

lemma written_to_other:
  "\<forall>w \<in> set (file_writes es). fst w = q \<Longrightarrow> q \<noteq> p \<Longrightarrow> written_to p es = []"
  by (auto simp: written_to_def filter_empty_conv)

lemma written_to_others:
  "\<forall>w \<in> set (file_writes es). fst w = q \<or> fst w = q' \<Longrightarrow> q \<noteq> p \<Longrightarrow> q' \<noteq> p
   \<Longrightarrow> written_to p es = []"
  by (auto simp: written_to_def filter_empty_conv)

lemma shares_product:
  assumes "0 <s s" and "sint s \<le> 21474836"
  shows "sint ((s :: c_int) * 100) sdiv 1024 = sint s * 100 div 1024"
proof -
  from assms have pos: "0 < sint s" by (simp add: word_sless_alt)
  have "sint (s * 100) = signed_take_bit 31 (sint s * 100)"
    by (simp add: sint_word_ariths)
  also have "\<dots> = sint s * 100"
    using pos assms(2) by (intro signed_take_bit_int_eq_self) auto
  finally show ?thesis using pos by (simp add: signed_divide_int_def sgn_if)
qed

lemma fmt_d_short: "0 \<le> w \<Longrightarrow> w \<le> 10000 \<Longrightarrow> snprintf 128 (fmt_d w) = fmt_d w"
proof -
  assume w: "0 \<le> w" "w \<le> 10000"
  then have "nat w < 10 ^ 5" by simp
  from digits10_length [OF _ this] have "length (digits10 (nat w)) \<le> 5" by simp
  with w show ?thesis by (simp add: snprintf_def fmt_d_def)
qed

text \<open>
  What the weight block does keep of its formula. \<open>cpu_shares\<close> is a 32-bit
  \<open>int\<close> and the product \<open>cpu_shares * 100\<close> is taken in 32 bits. As long as the
  product fits, that is for \<open>0 < s \<le> 21474836\<close>, on a cgroup path short enough for
  the \<open>PATH_MAX\<close> buffer and a file that opens for writing, \<open>cgroup_apply_limits\<close>
  writes to \<open>cpu.weight\<close> exactly the decimal text of
  \<open>clamp((s * 100) / 1024, 1, 10000)\<close>, the division being integer division.
\<close>

theorem cpu_weight_written:
  assumes s: "0 <s cpu_shares (limits (config c))"
      "sint (cpu_shares (limits (config c))) \<le> 21474836"
    and len: "length (cgroup_path c) + 16 < PATH_MAX"
    and opens: "0 \<le> sys k (Open_wronly (cgroup_path c @ ''/cpu.weight''))"
  shows "written_to (cgroup_path c @ ''/cpu.weight'') (snd (cgroup_apply_limits k c))
       = [fmt_d (clamp (sint (cpu_shares (limits (config c))) * 100 div 1024) 1 10000)]"
proof -
  let ?w = "clamp (sint (cpu_shares (limits (config c))) * 100 div 1024) 1 10000"
  have range: "0 \<le> ?w" "?w \<le> 10000"
    by (simp_all add: clamp_def)
  have weight: "file_writes (apply_cpu_weight k c) = [(cgroup_path c @ ''/cpu.weight'', fmt_d ?w)]"
    using s opens
    by (simp add: apply_cpu_weight_def Let_def case_prod_beta path_fits [OF len]
        file_writes_write_cgroup_value shares_product [OF s] fmt_d_short [OF range]
        fmt_d_short clamp_def max_def min_def)
  have mem: "written_to (cgroup_path c @ ''/cpu.weight'') (apply_memory_limit k c) = []"
    by (rule written_to_others [OF file_writes_memory [OF len]]) simp_all
  have cpu: "written_to (cgroup_path c @ ''/cpu.weight'') (apply_cpu_limit k c) = []"
    by (rule written_to_other [OF file_writes_cpu [OF len]]) simp
  have pids: "written_to (cgroup_path c @ ''/cpu.weight'') (apply_pid_limit k c) = []"
    by (rule written_to_other [OF file_writes_pids [OF len]]) simp
  show ?thesis
    by (simp add: cgroup_apply_limits_def mem cpu pids) (simp add: written_to_def weight)
qed

lemma opened_simps [simp]:
  "opened [] = []" "opened (xs @ ys) = opened xs @ opened ys" "opened (mc_log lvl msg) = []"
  by (simp_all add: opened_def mc_log_def)

lemma opened_write_cgroup_value [simp]: "opened (snd (write_cgroup_value k p v)) = [p]"
  by (simp add: write_cgroup_value_def opened_def mc_log_def)

lemma opened_memory:
  "length (cgroup_path c) + 16 < PATH_MAX \<Longrightarrow>
   set (opened (apply_memory_limit k c))
     \<subseteq> {cgroup_path c @ ''/memory.max'', cgroup_path c @ ''/memory.swap.max''}"
  by (auto simp: apply_memory_limit_def Let_def path_fits case_prod_beta)

lemma opened_pids:
  "length (cgroup_path c) + 16 < PATH_MAX \<Longrightarrow>
   set (opened (apply_pid_limit k c)) \<subseteq> {cgroup_path c @ ''/pids.max''}"
  by (auto simp: apply_pid_limit_def Let_def path_fits case_prod_beta)

lemma opened_cpu:
  "length (cgroup_path c) + 16 < PATH_MAX \<Longrightarrow>
   set (opened (apply_cpu_limit k c)) \<subseteq> {cgroup_path c @ ''/cpu.max''}"
  by (auto simp: apply_cpu_limit_def Let_def path_fits case_prod_beta)

lemma opened_weight:
  "length (cgroup_path c) + 16 < PATH_MAX \<Longrightarrow>
   set (opened (apply_cpu_weight k c)) \<subseteq> {cgroup_path c @ ''/cpu.weight''}"
  by (auto simp: apply_cpu_weight_def Let_def path_fits case_prod_beta)

lemma filter_keep: "\<forall>w \<in> set ws. P w \<Longrightarrow> filter P ws = ws"
  by (induction ws) auto

lemma filter_drop: "\<forall>w \<in> set ws. \<not> P w \<Longrightarrow> filter P ws = []"
  by (induction ws) auto

lemma zero_cpu_axes_blocks:
  "apply_memory_limit k (zero_cpu_axes c) = apply_memory_limit k c"
  "apply_pid_limit k (zero_cpu_axes c) = apply_pid_limit k c"
  "apply_cpu_limit k (zero_cpu_axes c) = []"
  "apply_cpu_weight k (zero_cpu_axes c) = []"
  by (simp_all add: zero_cpu_axes_def apply_memory_limit_def apply_pid_limit_def
      apply_cpu_limit_def apply_cpu_weight_def Let_def case_prod_beta)

lemma zero_pids_axis_blocks:
  "apply_memory_limit k (zero_pids_axis c) = apply_memory_limit k c"
  "apply_cpu_limit k (zero_pids_axis c) = apply_cpu_limit k c"
  "apply_cpu_weight k (zero_pids_axis c) = apply_cpu_weight k c"
  "apply_pid_limit k (zero_pids_axis c) = []"
  by (simp_all add: zero_pids_axis_def apply_memory_limit_def apply_pid_limit_def
      apply_cpu_limit_def apply_cpu_weight_def Let_def case_prod_beta)

text \<open>
  C6. With \<open>cpu_shares = 0\<close> and \<open>cpu_quota_us = 0\<close>, \<open>cgroup_apply_limits\<close>
  neither opens nor writes \<open>cpu.max\<close> or \<open>cpu.weight\<close>; with \<open>pids_max = 0\<close> it
  neither opens nor writes \<open>pids.max\<close>. The other files are unaffected: setting the
  two cpu axes of any record to zero removes from its file writes exactly those to
  \<open>cpu.max\<close> and \<open>cpu.weight\<close>, and setting \<open>pids_max\<close> to zero removes exactly
  those to \<open>pids.max\<close>. The cgroup path is short enough for the \<open>PATH_MAX\<close> buffer.
\<close>

theorem zero_axes_write_nothing:
  assumes len: "length (cgroup_path c) + 16 < PATH_MAX"
  shows "(cpu_shares (limits (config c)) = 0 \<and> cpu_quota_us (limits (config c)) = 0 \<longrightarrow>
            cgroup_path c @ ''/cpu.max'' \<notin> set (opened (snd (cgroup_apply_limits k c)))
          \<and> cgroup_path c @ ''/cpu.weight'' \<notin> set (opened (snd (cgroup_apply_limits k c)))
          \<and> written_to (cgroup_path c @ ''/cpu.max'') (snd (cgroup_apply_limits k c)) = []
          \<and> written_to (cgroup_path c @ ''/cpu.weight'') (snd (cgroup_apply_limits k c)) = [])
       \<and> (pids_max (limits (config c)) = 0 \<longrightarrow>
            cgroup_path c @ ''/pids.max'' \<notin> set (opened (snd (cgroup_apply_limits k c)))
          \<and> written_to (cgroup_path c @ ''/pids.max'') (snd (cgroup_apply_limits k c)) = [])
       \<and> file_writes (snd (cgroup_apply_limits k (zero_cpu_axes c)))
           = filter (\<lambda>w. fst w \<noteq> cgroup_path c @ ''/cpu.max''
                        \<and> fst w \<noteq> cgroup_path c @ ''/cpu.weight'')
               (file_writes (snd (cgroup_apply_limits k c)))
       \<and> file_writes (snd (cgroup_apply_limits k (zero_pids_axis c)))
           = filter (\<lambda>w. fst w \<noteq> cgroup_path c @ ''/pids.max'')
               (file_writes (snd (cgroup_apply_limits k c)))"
proof -
  let ?P = "cgroup_path c"
  note fm = file_writes_memory [OF len, of k] and fc = file_writes_cpu [OF len, of k]
    and fw = file_writes_weight [OF len, of k] and fp = file_writes_pids [OF len, of k]
  note om = opened_memory [OF len, of k] and op = opened_pids [OF len, of k]
    and oc = opened_cpu [OF len, of k] and ow = opened_weight [OF len, of k]
  have cpu_off: "apply_cpu_limit k c = [] \<and> apply_cpu_weight k c = []"
    if "cpu_shares (limits (config c)) = 0 \<and> cpu_quota_us (limits (config c)) = 0"
    using that by (simp add: apply_cpu_limit_def apply_cpu_weight_def)
  have pids_off: "apply_pid_limit k c = []" if "pids_max (limits (config c)) = 0"
    using that by (simp add: apply_pid_limit_def)
  have a: "?P @ ''/cpu.max'' \<notin> set (opened (apply_memory_limit k c @ apply_pid_limit k c))"
    "?P @ ''/cpu.weight'' \<notin> set (opened (apply_memory_limit k c @ apply_pid_limit k c))"
    using om op by auto
  have a': "written_to (?P @ ''/cpu.max'') (apply_memory_limit k c @ apply_pid_limit k c) = []"
    "written_to (?P @ ''/cpu.weight'') (apply_memory_limit k c @ apply_pid_limit k c) = []"
    using fm fp by (auto simp: written_to_def filter_empty_conv)
  have b: "?P @ ''/pids.max''
             \<notin> set (opened (apply_memory_limit k c @ apply_cpu_limit k c @ apply_cpu_weight k c))"
    using om oc ow by auto
  have b': "written_to (?P @ ''/pids.max'')
              (apply_memory_limit k c @ apply_cpu_limit k c @ apply_cpu_weight k c) = []"
    using fm fc fw by (auto simp: written_to_def filter_empty_conv)
  have c1: "filter (\<lambda>w. fst w \<noteq> ?P @ ''/cpu.max'' \<and> fst w \<noteq> ?P @ ''/cpu.weight'')
              (file_writes (apply_memory_limit k c)) = file_writes (apply_memory_limit k c)"
    "filter (\<lambda>w. fst w \<noteq> ?P @ ''/cpu.max'' \<and> fst w \<noteq> ?P @ ''/cpu.weight'')
              (file_writes (apply_pid_limit k c)) = file_writes (apply_pid_limit k c)"
    "filter (\<lambda>w. fst w \<noteq> ?P @ ''/cpu.max'' \<and> fst w \<noteq> ?P @ ''/cpu.weight'')
              (file_writes (apply_cpu_limit k c)) = []"
    "filter (\<lambda>w. fst w \<noteq> ?P @ ''/cpu.max'' \<and> fst w \<noteq> ?P @ ''/cpu.weight'')
              (file_writes (apply_cpu_weight k c)) = []"
    using fm fp fc fw by (auto intro!: filter_keep filter_drop)
  have d1: "filter (\<lambda>w. fst w \<noteq> ?P @ ''/pids.max'')
              (file_writes (apply_memory_limit k c)) = file_writes (apply_memory_limit k c)"
    "filter (\<lambda>w. fst w \<noteq> ?P @ ''/pids.max'')
              (file_writes (apply_cpu_limit k c)) = file_writes (apply_cpu_limit k c)"
    "filter (\<lambda>w. fst w \<noteq> ?P @ ''/pids.max'')
              (file_writes (apply_cpu_weight k c)) = file_writes (apply_cpu_weight k c)"
    "filter (\<lambda>w. fst w \<noteq> ?P @ ''/pids.max'') (file_writes (apply_pid_limit k c)) = []"
    using fm fp fc fw by (auto intro!: filter_keep filter_drop)
  show ?thesis
    using cpu_off pids_off a a' b b'
    by (simp add: cgroup_apply_limits_def zero_cpu_axes_blocks zero_pids_axis_blocks c1 d1)
qed

lemma shares_record_simps:
  "cgroup_path (shares_record s) = ''/sys/fs/cgroup/kernelsight/abc''"
  "cpu_shares (limits (config (shares_record s))) = s"
  "apply_memory_limit k (shares_record s) = []"
  "apply_cpu_limit k (shares_record s) = []"
  "apply_pid_limit k (shares_record s) = []"
  by (simp_all add: shares_record_def record_in_def plain_config_def plain_limits_def
      apply_memory_limit_def apply_cpu_limit_def apply_pid_limit_def)

lemma friendly_opens: "sys friendly_kernel (Open_wronly p) = 3"
  "sys friendly_kernel (Write f v) = int (length v)"
  by (simp_all add: friendly_kernel_def friendly_sys_def)

lemma fmt_d_values: "fmt_d 1 = ''1''" "fmt_d 100 = ''100''" "fmt_d 10000 = ''10000''"
  "fmt_d 52428800 = ''52428800''" "fmt_d 0 = ''0''"
  by (simp_all add: fmt_d_def digits10.simps)

theorem cpu_weight_of_default_shares:
  "0 <s (1024 :: c_int) \<and> sint (1024 :: c_int) \<le> 21474836
   \<and> written_to ''/sys/fs/cgroup/kernelsight/abc/cpu.weight''
        (snd (cgroup_apply_limits friendly_kernel (shares_record 1024))) = [''100'']"
proof -
  have h: "0 <s cpu_shares (limits (config (shares_record 1024)))"
    "sint (cpu_shares (limits (config (shares_record 1024)))) \<le> 21474836"
    "length (cgroup_path (shares_record 1024)) + 16 < PATH_MAX"
    "0 \<le> sys friendly_kernel (Open_wronly (cgroup_path (shares_record 1024) @ ''/cpu.weight''))"
    by (simp_all add: shares_record_simps friendly_opens PATH_MAX_def word_sless_alt)
  from cpu_weight_written [OF h] show ?thesis
    by (simp add: shares_record_simps clamp_def fmt_d_values word_sless_alt)
qed

text \<open>
  C5 on a concrete input. The claim promises, for every \<open>cpu_shares\<close> value
  \<open>s > 0\<close>, the value \<open>clamp((s * 100) / 1024, 1, 10000)\<close> in \<open>cpu.weight\<close>.
  With \<open>cpu_shares = 30000000\<close>, a positive \<open>int\<close>, on the kernel where every call
  succeeds, the 32-bit product \<open>cpu_shares * 100\<close> wraps to a negative number, the
  quotient is below 1 and \<open>cgroup_apply_limits\<close> writes \<open>1\<close>, the lowest weight,
  for the largest share; the formula gives \<open>10000\<close>.
\<close>

theorem cpu_weight_overflow:
  "0 <s (30000000 :: c_int)
   \<and> written_to ''/sys/fs/cgroup/kernelsight/abc/cpu.weight''
        (snd (cgroup_apply_limits friendly_kernel (shares_record 30000000))) = [''1'']
   \<and> fmt_d (clamp (30000000 * 100 div 1024) 1 10000) = ''10000''"
proof -
  have w: "sint ((30000000 :: c_int) * 100) sdiv 1024 = - 1264616"
    by (simp add: signed_divide_int_def)
  have run: "apply_cpu_weight friendly_kernel (shares_record 30000000)
      = snd (write_cgroup_value friendly_kernel ''/sys/fs/cgroup/kernelsight/abc/cpu.weight'' ''1'')"
    by (simp add: apply_cpu_weight_def Let_def shares_record_simps w fmt_d_values
        snprintf_def PATH_MAX_def case_prod_beta write_cgroup_value_def friendly_opens
        word_sless_alt)
  show ?thesis
    by (simp add: cgroup_apply_limits_def shares_record_simps run clamp_def fmt_d_values
        written_to_def file_writes_write_cgroup_value friendly_opens word_sless_alt)
qed

lemma memory_record_simps:
  "cgroup_path memory_record = ''/sys/fs/cgroup/kernelsight/abc''"
  "cpu_shares (limits (config memory_record)) = 0"
  "cpu_quota_us (limits (config memory_record)) = 0"
  "pids_max (limits (config memory_record)) = 0"
  by (simp_all add: memory_record_def record_in_def plain_config_def plain_limits_def)

lemma memory_record_writes:
  "file_writes (snd (cgroup_apply_limits friendly_kernel memory_record))
     = [(''/sys/fs/cgroup/kernelsight/abc/memory.max'', ''52428800''),
        (''/sys/fs/cgroup/kernelsight/abc/memory.swap.max'', ''0'')]"
proof -
  have m: "memory_limit_bytes (limits (config memory_record)) = 52428800"
    "memory_swap_bytes (limits (config memory_record)) = 0"
    by (simp_all add: memory_record_def record_in_def plain_config_def plain_limits_def)
  have off: "apply_cpu_limit k memory_record = []" "apply_cpu_weight k memory_record = []"
    "apply_pid_limit k memory_record = []" for k
    by (simp_all add: apply_cpu_limit_def apply_cpu_weight_def apply_pid_limit_def
        memory_record_simps)
  show ?thesis
    by (simp add: cgroup_apply_limits_def off apply_memory_limit_def Let_def case_prod_beta m
        memory_record_simps fmt_d_values snprintf_def PATH_MAX_def
        file_writes_write_cgroup_value friendly_opens word_sless_alt word_sle_eq)
qed

theorem zero_axes_write_nothing_witness:
  "cpu_shares (limits (config memory_record)) = 0
   \<and> cpu_quota_us (limits (config memory_record)) = 0
   \<and> pids_max (limits (config memory_record)) = 0
   \<and> ''/sys/fs/cgroup/kernelsight/abc/cpu.max''
        \<notin> set (opened (snd (cgroup_apply_limits friendly_kernel memory_record)))
   \<and> ''/sys/fs/cgroup/kernelsight/abc/cpu.weight''
        \<notin> set (opened (snd (cgroup_apply_limits friendly_kernel memory_record)))
   \<and> ''/sys/fs/cgroup/kernelsight/abc/pids.max''
        \<notin> set (opened (snd (cgroup_apply_limits friendly_kernel memory_record)))
   \<and> file_writes (snd (cgroup_apply_limits friendly_kernel (zero_cpu_axes memory_record)))
       = [(''/sys/fs/cgroup/kernelsight/abc/memory.max'', ''52428800''),
          (''/sys/fs/cgroup/kernelsight/abc/memory.swap.max'', ''0'')]"
proof -
  have len: "length (cgroup_path memory_record) + 16 < PATH_MAX"
    by (simp add: memory_record_simps PATH_MAX_def)
  from zero_axes_write_nothing [OF len, of friendly_kernel] show ?thesis
    by (simp add: memory_record_simps memory_record_writes)
qed

section \<open>Claims about the pivot\<close>

lemma calls_simps [simp]:
  "calls [] = []" "calls (xs @ ys) = calls xs @ calls ys" "calls (Call c # xs) = c # calls xs"
  "calls (Log l m # xs) = calls xs" "calls (mc_log lvl msg) = []"
  by (simp_all add: calls_def mc_log_def)

lemma mkdir_p_last:
  "calls (snd (mkdir_p k path mode)) \<noteq> []
   \<and> last (calls (snd (mkdir_p k path mode))) = Mkdir (snprintf PATH_MAX path) mode"
  by (simp add: mkdir_p_def Let_def)

text \<open>
  C4. \<open>fs_pivot_root\<close> fails with \<open>MC_ERR_FILESYSTEM\<close> when \<open>rootfs\<close> is NULL,
  missing or not a directory, having done no more than the \<open>stat\<close>. Otherwise it makes
  these calls, in this order, stopping with \<open>MC_ERR_FILESYSTEM\<close> at the first of the
  two mounts or the pivot that fails: \<open>/\<close> is made a recursive private mount; \<open>rootfs\<close>
  is bind-mounted recursively onto itself; \<open>mkdir_p\<close> creates \<open>rootfs/.old_root\<close> with
  mode 0700 (its last call, after the attempts on the directories above it); the
  \<open>pivot_root\<close> system call gets \<open>(rootfs, rootfs/.old_root)\<close> (when it fails
  the directory is removed again); the directory is changed to \<open>/\<close>; \<open>/.old_root\<close>
  is unmounted with \<open>MNT_DETACH\<close> and removed. When the pivot has succeeded the
  function returns \<open>MC_OK\<close> whatever the later calls answer, and a failing unmount
  leaves only a line of level 2 (warning) in the log. \<open>rootfs\<close> is short enough for
  \<open>rootfs/.old_root\<close> to fit the \<open>PATH_MAX\<close> buffer.
\<close>

theorem fs_pivot_root_steps:
  assumes len: "length root + 10 < PATH_MAX"
  shows "fs_pivot_root k None = (MC_ERR_FILESYSTEM, [Log 3 ''Rootfs does not exist: %s''])
   \<and> (\<not> dir_exists k root \<longrightarrow>
         fst (fs_pivot_root k (Some root)) = MC_ERR_FILESYSTEM
         \<and> calls (snd (fs_pivot_root k (Some root))) = [Stat root])
   \<and> (dir_exists k root \<and> sys k private_mount \<noteq> 0 \<longrightarrow>
         fst (fs_pivot_root k (Some root)) = MC_ERR_FILESYSTEM
         \<and> calls (snd (fs_pivot_root k (Some root))) = [Stat root, private_mount])
   \<and> (dir_exists k root \<and> sys k private_mount = 0 \<and> sys k (bind_mount root) \<noteq> 0 \<longrightarrow>
         fst (fs_pivot_root k (Some root)) = MC_ERR_FILESYSTEM
         \<and> calls (snd (fs_pivot_root k (Some root)))
             = [Stat root, private_mount, bind_mount root])
   \<and> (dir_exists k root \<and> sys k private_mount = 0 \<and> sys k (bind_mount root) = 0
        \<and> sys k (Pivot_root root (root @ ''/.old_root'')) \<noteq> 0 \<longrightarrow>
         fst (fs_pivot_root k (Some root)) = MC_ERR_FILESYSTEM
         \<and> calls (snd (fs_pivot_root k (Some root)))
             = [Stat root, private_mount, bind_mount root]
               @ calls (snd (mkdir_p k (root @ ''/.old_root'') (octal [7, 0, 0])))
               @ [Pivot_root root (root @ ''/.old_root''), Rmdir (root @ ''/.old_root'')])
   \<and> (dir_exists k root \<and> sys k private_mount = 0 \<and> sys k (bind_mount root) = 0
        \<and> sys k (Pivot_root root (root @ ''/.old_root'')) = 0 \<longrightarrow>
         fst (fs_pivot_root k (Some root)) = MC_OK
         \<and> calls (snd (fs_pivot_root k (Some root)))
             = [Stat root, private_mount, bind_mount root]
               @ calls (snd (mkdir_p k (root @ ''/.old_root'') (octal [7, 0, 0])))
               @ [Pivot_root root (root @ ''/.old_root''), Chdir ''/'',
                  Umount2_detach ''/.old_root'', Rmdir ''/.old_root'']
         \<and> (sys k (Umount2_detach ''/.old_root'') \<noteq> 0 \<longrightarrow>
               Log 2 ''umount old_root failed: %s'' \<in> set (snd (fs_pivot_root k (Some root)))))
   \<and> last (calls (snd (mkdir_p k (root @ ''/.old_root'') (octal [7, 0, 0]))))
       = Mkdir (root @ ''/.old_root'') (octal [7, 0, 0])"
proof -
  have old: "snprintf PATH_MAX (root @ ''/.old_root'') = root @ ''/.old_root''"
    using len by (simp add: snprintf_def)
  show ?thesis
    using mkdir_p_last [of k "root @ ''/.old_root''" "octal [7, 0, 0]"]
    by (simp add: fs_pivot_root_def Let_def old private_mount_def bind_mount_def mc_log_def
        log_level_def)
qed

theorem fs_pivot_root_steps_witness:
  "dir_exists friendly_kernel ''/tmp/alpine''
   \<and> fst (fs_pivot_root friendly_kernel (Some ''/tmp/alpine'')) = MC_OK
   \<and> calls (snd (fs_pivot_root friendly_kernel (Some ''/tmp/alpine'')))
       = [Stat ''/tmp/alpine'',
          Mount None ''/'' None {MS_REC, MS_PRIVATE} None,
          Mount (Some ''/tmp/alpine'') ''/tmp/alpine'' None {MS_BIND, MS_REC} None,
          Mkdir ''/tmp'' 448, Mkdir ''/tmp/alpine'' 448, Mkdir ''/tmp/alpine/.old_root'' 448,
          Pivot_root ''/tmp/alpine'' ''/tmp/alpine/.old_root'', Chdir ''/'',
          Umount2_detach ''/.old_root'', Rmdir ''/.old_root'']
   \<and> sys umount_fails (Umount2_detach ''/.old_root'') \<noteq> 0
   \<and> fst (fs_pivot_root umount_fails (Some ''/tmp/alpine'')) = MC_OK
   \<and> Log 2 ''umount old_root failed: %s''
        \<in> set (snd (fs_pivot_root umount_fails (Some ''/tmp/alpine'')))
   \<and> \<not> dir_exists no_directory ''/tmp/alpine''
   \<and> fst (fs_pivot_root no_directory (Some ''/tmp/alpine'')) = MC_ERR_FILESYSTEM
   \<and> calls (snd (fs_pivot_root no_directory (Some ''/tmp/alpine''))) = [Stat ''/tmp/alpine'']"
proof -
  have len: "length ''/tmp/alpine'' + 10 < PATH_MAX"
    by (simp add: PATH_MAX_def)
  have dirs: "dir_exists friendly_kernel ''/tmp/alpine''" "dir_exists umount_fails ''/tmp/alpine''"
    "\<not> dir_exists no_directory ''/tmp/alpine''"
    by (simp_all add: dir_exists_def friendly_kernel_def friendly_sys_def umount_fails_def
        no_directory_def)
  have ok: "sys friendly_kernel private_mount = 0"
    "sys friendly_kernel (bind_mount ''/tmp/alpine'') = 0"
    "sys friendly_kernel (Pivot_root ''/tmp/alpine'' (''/tmp/alpine'' @ ''/.old_root'')) = 0"
    "sys umount_fails private_mount = 0"
    "sys umount_fails (bind_mount ''/tmp/alpine'') = 0"
    "sys umount_fails (Pivot_root ''/tmp/alpine'' (''/tmp/alpine'' @ ''/.old_root'')) = 0"
    "sys umount_fails (Umount2_detach ''/.old_root'') \<noteq> 0"
    by (simp_all add: friendly_kernel_def friendly_sys_def umount_fails_def private_mount_def
        bind_mount_def)
  have mk: "calls (snd (mkdir_p friendly_kernel (''/tmp/alpine'' @ ''/.old_root'') (octal [7, 0, 0])))
      = [Mkdir ''/tmp'' 448, Mkdir ''/tmp/alpine'' 448, Mkdir ''/tmp/alpine/.old_root'' 448]"
    by (simp add: mkdir_p_def Let_def snprintf_def PATH_MAX_def octal_def)
  from fs_pivot_root_steps [OF len, of friendly_kernel]
    fs_pivot_root_steps [OF len, of umount_fails]
    fs_pivot_root_steps [OF len, of no_directory]
    dirs ok mk
  show ?thesis
    by (simp add: private_mount_def bind_mount_def)
qed

section \<open>Claims about create\<close>

lemma generate_container_id_hex:
  "length (fst (generate_container_id k)) = 12
   \<and> set (fst (generate_container_id k)) \<subseteq> set ''0123456789abcdef''"
proof -
  have "''0123456789abcdef'' ! (n mod 16) \<in> set ''0123456789abcdef''" for n :: nat
    by (rule nth_mem) simp
  then show ?thesis
    by (auto simp: generate_container_id_def simp del: set_simps list.set)
qed

lemma cgroup_init_record:
  "fst (snd (cgroup_init k c)) = c
   \<or> fst (snd (cgroup_init k c))
       = c\<lparr>cgroup_path := snprintf PATH_MAX (''/sys/fs/cgroup/kernelsight/'' @ id_field (config c))\<rparr>"
  by (simp add: cgroup_init_def Let_def case_prod_beta)

lemma cgroup_init_unavailable:
  "\<not> cgroup_v2_available k \<Longrightarrow>
   cgroup_init k c = (MC_ERR_CGROUP, c,
     [Call (Stat (snprintf PATH_MAX ''/sys/fs/cgroup/cgroup.controllers'')),
      Log 3 ''Cgroup v2 is not available''])"
  by (simp add: cgroup_init_def Let_def mc_log_def log_level_def)

lemma cgroup_init_result_path:
  "fst (cgroup_init k (c\<lparr>cgroup_path := p\<rparr>)) = fst (cgroup_init k c)"
  by (simp add: cgroup_init_def Let_def case_prod_beta)

lemma cgroup_init_keeps:
  "config (fst (snd (cgroup_init k c))) = config c"
  "state (fst (snd (cgroup_init k c))) = state c"
  "pid (fst (snd (cgroup_init k c))) = pid c"
  "state_dir (fst (snd (cgroup_init k c))) = state_dir c"
  using cgroup_init_record [of k c] by auto

lemma state_writes_simps [simp]:
  "state_writes [] = []" "state_writes (xs @ ys) = state_writes xs @ state_writes ys"
  "state_writes (e # xs) = state_write e @ state_writes xs"
  "state_writes (mc_log lvl msg) = []"
  by (simp_all add: state_writes_def mc_log_def)

lemma state_writes_write_cgroup_value [simp]:
  "state_writes (snd (write_cgroup_value k p v)) = []"
  by (simp add: write_cgroup_value_def)

lemma state_writes_enable_controllers [simp]:
  "state_writes (enable_controllers k p msg) = []"
  by (simp add: enable_controllers_def Let_def case_prod_beta)

lemma state_writes_cgroup_init [simp]:
  "state_writes (snd (snd (cgroup_init k c))) = []"
  by (simp add: cgroup_init_def cgroup_create_hierarchy_def Let_def case_prod_beta)

lemma state_writes_cgroup_apply_limits [simp]:
  "state_writes (snd (cgroup_apply_limits k c)) = []"
  by (simp add: cgroup_apply_limits_def apply_memory_limit_def apply_cpu_limit_def
      apply_cpu_weight_def apply_pid_limit_def Let_def case_prod_beta)

lemma state_writes_generate [simp]:
  "state_writes (snd (generate_container_id k)) = []"
  by (simp add: generate_container_id_def state_writes_def)

lemma rand_free_write_cgroup_value [simp]:
  "Call Rand \<notin> set (snd (write_cgroup_value k p v))"
  by (simp add: write_cgroup_value_def mc_log_def)

lemma rand_free_cgroup_init [simp]:
  "Call Rand \<notin> set (snd (snd (cgroup_init k c)))"
  by (simp add: cgroup_init_def cgroup_create_hierarchy_def enable_controllers_def Let_def
      case_prod_beta mc_log_def)

lemma rand_free_cgroup_apply_limits [simp]:
  "Call Rand \<notin> set (snd (cgroup_apply_limits k c))"
  by (simp add: cgroup_apply_limits_def apply_memory_limit_def apply_cpu_limit_def
      apply_cpu_weight_def apply_pid_limit_def Let_def case_prod_beta mc_log_def)

lemma rand_free_save [simp]:
  "Call Rand \<notin> set (snd (save_container_state k c))"
  by (simp add: save_container_state_def Let_def)

text \<open>
  C7, as the code has it. Whenever the record can be allocated, \<open>container_create\<close>
  returns success with a record in state created, whatever \<open>cgroup_init\<close> answers:
  when \<open>cgroup_init\<close> fails (for example because cgroup v2 is not available) the run
  gains the warning \<open>Could not initialize cgroup\<close> and goes on. An empty id is
  replaced by 12 hexadecimal digits, the \<open>i\<close>-th being the digit of the \<open>i\<close>-th answer
  of \<open>rand()\<close> modulo 16, and the run begins, after the allocation, with the calls of
  \<open>time\<close>, \<open>getpid\<close> and \<open>srand\<close> and those twelve calls of \<open>rand\<close>; an id that
  is given is kept and \<open>rand\<close> is not called. An empty name becomes the id and an empty
  hostname the name. The state directory is that of the id. The result of
  \<open>save_container_state\<close> is not looked at: the run prints exactly one state file,
  that of the record with \<open>state=created\<close>, when the file opens, and none when it does
  not, and returns success in both cases. The id and the name of the configuration are
  within their arrays (64 and 255 characters).
\<close>

theorem container_create_survives_cgroup_failure:
  assumes alloc: "sys k Calloc \<noteq> 0"
    and wf: "length (id_field cfg) \<le> 64" "length (name cfg) \<le> 255"
  shows "fst (container_create k cfg) = mc_code MC_OK
   \<and> (\<exists>c. fst (snd (container_create k cfg)) = Some c
        \<and> state c = CONTAINER_CREATED
        \<and> (id_field cfg = [] \<longrightarrow>
              id_field (config c)
                = map (\<lambda>i. ''0123456789abcdef'' ! (rand_answer k i mod 16)) [0..<12]
              \<and> length (id_field (config c)) = 12
              \<and> set (id_field (config c)) \<subseteq> set ''0123456789abcdef''
              \<and> (\<exists>rest. snd (snd (container_create k cfg))
                    = [Call Calloc, Call Time, Call Getpid, Call Srand]
                      @ replicate 12 (Call Rand) @ rest))
        \<and> (id_field cfg \<noteq> [] \<longrightarrow>
              id_field (config c) = id_field cfg
              \<and> Call Rand \<notin> set (snd (snd (container_create k cfg))))
        \<and> (name cfg = [] \<longrightarrow> name (config c) = id_field (config c))
        \<and> (name cfg \<noteq> [] \<longrightarrow> name (config c) = name cfg)
        \<and> (hostname cfg = [] \<longrightarrow> hostname (config c) = name (config c))
        \<and> (hostname cfg \<noteq> [] \<longrightarrow> hostname (config c) = hostname cfg)
        \<and> state_dir c = ''/var/lib/minicontainer/containers/'' @ id_field (config c)
        \<and> (fst (cgroup_init k c) \<noteq> MC_OK \<longrightarrow>
              Log 2 ''Could not initialize cgroup'' \<in> set (snd (snd (container_create k cfg))))
        \<and> state_writes (snd (snd (container_create k cfg)))
            = (if sys k (Fopen_w (state_dir c @ ''/state.txt'')) = 0 then []
               else [(state_dir c @ ''/state.txt'',
                      ''id='' @ id_field (config c) @ ''\<newline>name='' @ name (config c)
                        @ ''\<newline>state=created\<newline>pid=0\<newline>'')]))"
proof -
  define cfg1 where "cfg1 = (if id_field cfg = [] then cfg\<lparr>id_field := fst (generate_container_id k)\<rparr> else cfg)"
  define cfg2 where "cfg2 = (if name cfg1 = [] then cfg1\<lparr>name := take 255 (id_field cfg1)\<rparr> else cfg1)"
  define cfg3 where "cfg3 = (if hostname cfg2 = [] then cfg2\<lparr>hostname := take 255 (name cfg2)\<rparr> else cfg2)"
  define sd where "sd = snprintf PATH_MAX (''/var/lib/minicontainer/containers/'' @ id_field cfg3)"
  define c0 where "c0 = \<lparr>config = cfg3, state = CONTAINER_CREATED, pid = 0, exit_code = 0,
                 cgroup_path = [], state_dir = sd, created_at = time_now k,
                 started_at = 0, stopped_at = 0\<rparr>"
  define c1 where "c1 = fst (snd (cgroup_init k c0))"
  define tail where "tail =
        [Call (System (snprintf PATH_MAX (''mkdir -p '' @ sd))), Call Time]
        @ (snd (snd (cgroup_init k c0))
           @ (if fst (cgroup_init k c0) \<noteq> MC_OK
              then mc_log 2 ''Could not initialize cgroup'' else []))
        @ (snd (cgroup_apply_limits k c1)
           @ (if fst (cgroup_apply_limits k c1) \<noteq> MC_OK
              then mc_log 2 ''Could not apply limits'' else []))
        @ snd (save_container_state k c1) @ mc_log 1 ''Created container: %s (%s)''"
  define run where "run = snd (snd (container_create k cfg))"
  note hex = generate_container_id_hex [of k]
  have gen: "fst (generate_container_id k)
      = map (\<lambda>i. ''0123456789abcdef'' ! (rand_answer k i mod 16)) [0..<12]"
    by (simp add: generate_container_id_def)
  have id1: "length (id_field cfg1) \<le> 64"
    using wf hex by (simp add: cfg1_def)
  have id3: "id_field cfg3 = id_field cfg1" "name cfg3 = name cfg2"
    "name cfg2 = (if name cfg = [] then id_field cfg1 else name cfg)"
    "hostname cfg3 = (if hostname cfg = [] then name cfg2 else hostname cfg)"
    using wf id1 by (auto simp: cfg1_def cfg2_def cfg3_def)
  have sd: "sd = ''/var/lib/minicontainer/containers/'' @ id_field cfg1"
    using id1 by (simp add: sd_def id3 snprintf_def PATH_MAX_def)
  have path: "snprintf PATH_MAX (sd @ ''/state.txt'') = sd @ ''/state.txt''"
    using id1 by (simp add: sd snprintf_def PATH_MAX_def)
  have c1: "config c1 = cfg3" "state c1 = CONTAINER_CREATED" "pid c1 = 0" "state_dir c1 = sd"
    by (simp_all add: c1_def c0_def cgroup_init_keeps)
  have r1: "fst (cgroup_init k c1) = fst (cgroup_init k c0)"
    using cgroup_init_record [of k c0] cgroup_init_result_path [where k = k and c = c0]
    by (auto simp: c1_def)
  have unfold: "container_create k cfg =
     (mc_code MC_OK, Some c1,
      [Call Calloc] @ (if id_field cfg = [] then snd (generate_container_id k) else []) @ tail)"
    using alloc
    by (simp add: container_create_def Let_def case_prod_beta cfg1_def cfg2_def cfg3_def
        sd_def c0_def c1_def tail_def)
  then have run: "run = [Call Calloc]
      @ (if id_field cfg = [] then snd (generate_container_id k) else []) @ tail"
    by (simp add: run_def)
  have saved: "state_writes (snd (save_container_state k c1))
      = (if sys k (Fopen_w (sd @ ''/state.txt'')) = 0 then []
         else [(sd @ ''/state.txt'',
                ''id='' @ id_field cfg3 @ ''\<newline>name='' @ name cfg3
                  @ ''\<newline>state=created\<newline>pid=0\<newline>'')])"
    by (simp add: save_container_state_def Let_def c1 path state_file_text_def fmt_d_def
        digits10.simps)
  have tail_writes: "state_writes tail = state_writes (snd (save_container_state k c1))"
    by (simp add: tail_def)
  have writes: "state_writes run = state_writes (snd (save_container_state k c1))"
    by (simp add: run tail_writes)
  have tail_rand: "Call Rand \<notin> set tail"
    by (simp add: tail_def mc_log_def)
  have quiet: "id_field cfg \<noteq> [] \<Longrightarrow> Call Rand \<notin> set run"
    using tail_rand by (simp add: run)
  have seeded: "id_field cfg = [] \<Longrightarrow>
      run = [Call Calloc, Call Time, Call Getpid, Call Srand] @ replicate 12 (Call Rand) @ tail"
    by (simp add: run generate_container_id_def)
  have warned: "fst (cgroup_init k c0) \<noteq> MC_OK \<Longrightarrow> Log 2 ''Could not initialize cgroup'' \<in> set run"
    by (simp add: run tail_def mc_log_def log_level_def)
  have ident: "id_field cfg = [] \<Longrightarrow> id_field cfg1 = fst (generate_container_id k)"
    "id_field cfg \<noteq> [] \<Longrightarrow> id_field cfg1 = id_field cfg"
    by (simp_all add: cfg1_def)
  have res: "fst (container_create k cfg) = mc_code MC_OK"
    "fst (snd (container_create k cfg)) = Some c1"
    by (simp_all add: unfold)
  have fields: "state c1 = CONTAINER_CREATED
        \<and> (id_field cfg = [] \<longrightarrow>
              id_field (config c1)
                = map (\<lambda>i. ''0123456789abcdef'' ! (rand_answer k i mod 16)) [0..<12]
              \<and> length (id_field (config c1)) = 12
              \<and> set (id_field (config c1)) \<subseteq> set ''0123456789abcdef''
              \<and> (\<exists>rest. run
                    = [Call Calloc, Call Time, Call Getpid, Call Srand]
                      @ replicate 12 (Call Rand) @ rest))
        \<and> (id_field cfg \<noteq> [] \<longrightarrow>
              id_field (config c1) = id_field cfg \<and> Call Rand \<notin> set run)
        \<and> (name cfg = [] \<longrightarrow> name (config c1) = id_field (config c1))
        \<and> (name cfg \<noteq> [] \<longrightarrow> name (config c1) = name cfg)
        \<and> (hostname cfg = [] \<longrightarrow> hostname (config c1) = name (config c1))
        \<and> (hostname cfg \<noteq> [] \<longrightarrow> hostname (config c1) = hostname cfg)
        \<and> state_dir c1 = ''/var/lib/minicontainer/containers/'' @ id_field (config c1)
        \<and> (fst (cgroup_init k c1) \<noteq> MC_OK \<longrightarrow>
              Log 2 ''Could not initialize cgroup'' \<in> set run)
        \<and> state_writes run
            = (if sys k (Fopen_w (state_dir c1 @ ''/state.txt'')) = 0 then []
               else [(state_dir c1 @ ''/state.txt'',
                      ''id='' @ id_field (config c1) @ ''\<newline>name='' @ name (config c1)
                        @ ''\<newline>state=created\<newline>pid=0\<newline>'')])"
    using hex gen seeded quiet warned ident
    by (simp add: c1 r1 id3 sd [symmetric] writes saved) (simp add: sd)
  from res fields show ?thesis
    unfolding run_def by blast
qed

theorem container_create_survives_cgroup_failure_witness:
  "sys no_cgroup_v2 Calloc \<noteq> 0 \<and> \<not> cgroup_v2_available no_cgroup_v2
   \<and> fst (container_create no_cgroup_v2 empty_config) = 0
   \<and> (\<exists>c. fst (snd (container_create no_cgroup_v2 empty_config)) = Some c
         \<and> state c = CONTAINER_CREATED
         \<and> id_field (config c) = ''0123456789ab''
         \<and> name (config c) = ''0123456789ab''
         \<and> hostname (config c) = ''0123456789ab'')
   \<and> (\<exists>rest. snd (snd (container_create no_cgroup_v2 empty_config))
         = [Call Calloc, Call Time, Call Getpid, Call Srand] @ replicate 12 (Call Rand) @ rest)
   \<and> Log 2 ''Could not initialize cgroup''
        \<in> set (snd (snd (container_create no_cgroup_v2 empty_config)))
   \<and> state_writes (snd (snd (container_create no_cgroup_v2 empty_config)))
       = [(''/var/lib/minicontainer/containers/0123456789ab/state.txt'',
           ''id=0123456789ab\<newline>name=0123456789ab\<newline>state=created\<newline>pid=0\<newline>'')]"
proof -
  have k: "sys no_cgroup_v2 Calloc \<noteq> 0" "\<not> cgroup_v2_available no_cgroup_v2"
    "sys no_cgroup_v2 (Fopen_w p) \<noteq> 0" for p
    by (simp_all add: no_cgroup_v2_def friendly_kernel_def friendly_sys_def
        cgroup_v2_available_def snprintf_def PATH_MAX_def)
  have cfg: "id_field empty_config = []" "name empty_config = []" "hostname empty_config = []"
    by (simp_all add: empty_config_def)
  have wf: "length (id_field empty_config) \<le> 64" "length (name empty_config) \<le> 255"
    by (simp_all add: cfg)
  have gen: "map (\<lambda>i. ''0123456789abcdef'' ! (rand_answer no_cgroup_v2 i mod 16)) [0..<12]
      = ''0123456789ab''"
    by (simp add: no_cgroup_v2_def friendly_kernel_def upt_rec)
  have init: "fst (cgroup_init no_cgroup_v2 c) \<noteq> MC_OK" for c
    by (simp add: cgroup_init_unavailable [OF k(2)])
  from container_create_survives_cgroup_failure [OF k(1) wf] k show ?thesis
    by (auto simp: cfg gen init)
qed

text \<open>
  C7 as the specification states it fails on the record being persisted, and on the id
  being fresh. On a kernel on which the state file cannot be opened, \<open>container_create\<close>
  returns success (0) and its run prints no state file at all. On a kernel whose state
  directory already holds the container \<open>0123456789ab\<close>, with \<open>rand()\<close> answering
  0, 1, 2, ..., the id given to the new record is \<open>0123456789ab\<close> again.
\<close>

theorem container_create_unsaved_record:
  "fst (container_create no_state_file empty_config) = 0
   \<and> state_writes (snd (snd (container_create no_state_file empty_config))) = []
   \<and> dir_entries id_in_use ''/var/lib/minicontainer/containers''
       = Some [''.'', ''..'', ''0123456789ab'']
   \<and> map_option (\<lambda>c. id_field (config c)) (fst (snd (container_create id_in_use empty_config)))
       = Some ''0123456789ab''"
proof -
  have gen: "fst (generate_container_id no_state_file) = ''0123456789ab''"
    "fst (generate_container_id id_in_use) = ''0123456789ab''"
    by (simp_all add: generate_container_id_def no_state_file_def id_in_use_def
        friendly_kernel_def upt_rec)
  have k: "sys no_state_file Calloc \<noteq> 0" "sys id_in_use Calloc \<noteq> 0"
    "sys no_state_file (Fopen_w ''/var/lib/minicontainer/containers/0123456789ab/state.txt'') = 0"
    by (simp_all add: no_state_file_def id_in_use_def friendly_kernel_def friendly_sys_def)
  have cfg: "id_field empty_config = []" "name empty_config = []" "hostname empty_config = []"
    by (simp_all add: empty_config_def)
  have "fst (container_create no_state_file empty_config) = 0"
    using k by (simp add: container_create_def Let_def case_prod_beta)
  moreover have "state_writes (snd (snd (container_create no_state_file empty_config))) = []"
    using k
    by (simp add: container_create_def Let_def case_prod_beta cfg gen cgroup_init_keeps
        save_container_state_def snprintf_def PATH_MAX_def)
  moreover have "dir_entries id_in_use ''/var/lib/minicontainer/containers''
       = Some [''.'', ''..'', ''0123456789ab'']"
    by (simp add: id_in_use_def)
  moreover have "map_option (\<lambda>c. id_field (config c))
        (fst (snd (container_create id_in_use empty_config))) = Some ''0123456789ab''"
    using k
    by (simp add: container_create_def Let_def case_prod_beta cfg gen cgroup_init_keeps)
  ultimately show ?thesis by blast
qed


section \<open>Claims about metrics\<close>










section \<open>Claims about the spawn protocol\<close>

lemma container_child_shape:
  "\<exists>rest. snd (container_child kc cfg)
      = Call (Close SyncPipeWr) # Call (Read SyncPipeRd 1) # rest
    \<and> (sys kc (Read SyncPipeRd 1) \<noteq> 1 \<longrightarrow> rest = [Log 3 ''Failed to read from sync pipe''])"
  by (simp add: container_child_def Let_def case_prod_beta mc_log_def log_level_def)

lemma write_file_events:
  "set (snd (write_file k path content))
     \<subseteq> {Call (Open_wronly path), Call (Write (File path) content), Call (Close (File path)),
        Log 3 ''Failed to open %s: %s'', Log 3 ''Failed to write to %s: %s''}"
  by (auto simp: write_file_def mc_log_def log_level_def)

lemma write_file_ok:
  "fst (write_file k path content) = MC_OK \<Longrightarrow>
   snd (write_file k path content)
     = [Call (Open_wronly path), Call (Write (File path) content), Call (Close (File path))]
   \<and> sys k (Write (File path) content) = int (length content)"
  by (auto simp: write_file_def split: if_splits)

lemma write_file_starts:
  "\<exists>es. snd (write_file k path content) = Call (Open_wronly path) # es"
  by (simp add: write_file_def)

lemma write_file_opened:
  "0 \<le> sys k (Open_wronly path) \<Longrightarrow>
   \<exists>es. snd (write_file k path content)
      = Call (Open_wronly path) # Call (Write (File path) content) # es"
  by (simp add: write_file_def)

lemma ns_setup_user_events:
  "release_byte \<notin> set (snd (ns_setup_user k p uh uc gh gc))"
proof -
  have "release_byte \<notin> set (snd (write_file k path content))" for path content
    using write_file_events [of k path content] by (auto simp: release_byte_def)
  then show ?thesis
    by (simp add: ns_setup_user_def Let_def case_prod_beta mc_log_def log_level_def
        release_byte_def)
qed

lemma ns_setup_user_ok:
  assumes "fst (ns_setup_user k p uh uc gh gc) = MC_OK"
  shows "subseq [Call (Open_wronly (proc_file p ''/setgroups'')),
                 Call (Write (File (proc_file p ''/uid_map'')) (map_row uc uh)),
                 Call (Write (File (proc_file p ''/gid_map'')) (map_row gc gh))]
           (snd (ns_setup_user k p uh uc gh gc))
       \<and> (0 \<le> sys k (Open_wronly (proc_file p ''/setgroups'')) \<longrightarrow>
             subseq [Call (Open_wronly (proc_file p ''/setgroups'')),
                     Call (Write (File (proc_file p ''/setgroups'')) ''deny''),
                     Call (Write (File (proc_file p ''/uid_map'')) (map_row uc uh)),
                     Call (Write (File (proc_file p ''/gid_map'')) (map_row gc gh))]
               (snd (ns_setup_user k p uh uc gh gc)))
       \<and> sys k (Write (File (proc_file p ''/uid_map'')) (map_row uc uh))
           = int (length (map_row uc uh))
       \<and> sys k (Write (File (proc_file p ''/gid_map'')) (map_row gc gh))
           = int (length (map_row gc gh))"
proof -
  let ?sg = "write_file k (proc_file p ''/setgroups'') ''deny''"
  let ?u = "write_file k (proc_file p ''/uid_map'') (map_row uc uh)"
  let ?g = "write_file k (proc_file p ''/gid_map'') (map_row gc gh)"
  from assms have u: "fst ?u = MC_OK" and g: "fst ?g = MC_OK"
    by (auto simp: ns_setup_user_def Let_def case_prod_beta proc_file_def map_row_def
        split: if_splits)
  obtain es where sg: "snd ?sg = Call (Open_wronly (proc_file p ''/setgroups'')) # es"
    using write_file_starts by blast
  have run: "snd (ns_setup_user k p uh uc gh gc)
      = (snd ?sg @ (if fst ?sg \<noteq> MC_OK
                    then mc_log 2 ''Could not write setgroups deny (may be already denied)''
                    else []))
        @ (snd ?u @ mc_log 1 ''Set UID mapping: %u -> %u'')
        @ snd ?g @ mc_log 1 ''Set GID mapping: %u -> %u''"
    using u g
    by (simp add: ns_setup_user_def Let_def case_prod_beta proc_file_def map_row_def)
  have opened: "subseq [Call (Open_wronly (proc_file p ''/setgroups''))]
          (snd ?sg @ (if fst ?sg \<noteq> MC_OK
                    then mc_log 2 ''Could not write setgroups deny (may be already denied)''
                    else []))"
    by (simp add: sg)
  have uid: "subseq [Call (Write (File (proc_file p ''/uid_map'')) (map_row uc uh))]
          (snd ?u @ mc_log 1 ''Set UID mapping: %u -> %u'')"
    by (simp add: write_file_ok [OF u])
  have gid: "subseq [Call (Write (File (proc_file p ''/gid_map'')) (map_row gc gh))]
          (snd ?g @ mc_log 1 ''Set GID mapping: %u -> %u'')"
    by (simp add: write_file_ok [OF g])
  from opened uid gid
  have maps: "subseq ([Call (Open_wronly (proc_file p ''/setgroups''))]
                    @ [Call (Write (File (proc_file p ''/uid_map'')) (map_row uc uh))]
                    @ [Call (Write (File (proc_file p ''/gid_map'')) (map_row gc gh))])
                 (snd (ns_setup_user k p uh uc gh gc))"
    unfolding run by (intro list_emb_append_mono)
  have deny: "subseq ([Call (Open_wronly (proc_file p ''/setgroups'')),
                       Call (Write (File (proc_file p ''/setgroups'')) ''deny'')]
                    @ [Call (Write (File (proc_file p ''/uid_map'')) (map_row uc uh))]
                    @ [Call (Write (File (proc_file p ''/gid_map'')) (map_row gc gh))])
                 (snd (ns_setup_user k p uh uc gh gc))"
    if "0 \<le> sys k (Open_wronly (proc_file p ''/setgroups''))"
  proof -
    from write_file_opened [OF that] obtain es'
      where "snd ?sg = Call (Open_wronly (proc_file p ''/setgroups''))
                        # Call (Write (File (proc_file p ''/setgroups'')) ''deny'') # es'"
      by blast
    then have "subseq [Call (Open_wronly (proc_file p ''/setgroups'')),
                       Call (Write (File (proc_file p ''/setgroups'')) ''deny'')]
          (snd ?sg @ (if fst ?sg \<noteq> MC_OK
                    then mc_log 2 ''Could not write setgroups deny (may be already denied)''
                    else []))"
      by simp
    from this uid gid show ?thesis
      unfolding run by (intro list_emb_append_mono)
  qed
  from maps deny show ?thesis
    using write_file_ok [OF u] write_file_ok [OF g] by simp
qed

lemma ns_create_released:
  assumes rel: "release_byte \<in> set (snd (ns_create kp cfg))"
  shows "\<exists>A. snd (ns_create kp cfg) = A @ [release_byte, Call (Close SyncPipeWr)]
           \<and> release_byte \<notin> set A
           \<and> (enable_user_ns cfg \<noteq> 0 \<longrightarrow>
                 subseq (maps_installed kp cfg) A
                 \<and> (0 \<le> sys kp (Open_wronly (proc_file (child_pid kp cfg) ''/setgroups''))
                      \<longrightarrow> subseq (deny_and_maps kp cfg) A)
                 \<and> sys kp (Write (File (proc_file (child_pid kp cfg) ''/uid_map''))
                             (map_row (uid_map_container cfg) (uid_map_host cfg)))
                     = int (length (map_row (uid_map_container cfg) (uid_map_host cfg)))
                 \<and> sys kp (Write (File (proc_file (child_pid kp cfg) ''/gid_map''))
                             (map_row (gid_map_container cfg) (gid_map_host cfg)))
                     = int (length (map_row (gid_map_container cfg) (gid_map_host cfg))))"
proof -
  let ?p = "child_pid kp cfg"
  let ?su = "if enable_user_ns cfg \<noteq> 0
             then ns_setup_user kp ?p (uid_map_host cfg) (uid_map_container cfg)
                    (gid_map_host cfg) (gid_map_container cfg)
             else (MC_OK, [])"
  let ?pre = "[Call Pipe, Call (Malloc STACK_SIZE),
               Call (Clone (insert SIGCHLD (get_ns_flags cfg)))]
              @ mc_log 1 ''Created container process with PID: %d''"
  have su_free: "release_byte \<notin> set (snd ?su)"
    using ns_setup_user_events by simp
  have pre_free: "release_byte \<notin> set ?pre"
    by (simp add: release_byte_def mc_log_def)
  have early: "\<not> (sys kp Pipe \<noteq> 0 \<or> sys kp (Malloc STACK_SIZE) = 0 \<or> ?p < 0)"
  proof
    assume "sys kp Pipe \<noteq> 0 \<or> sys kp (Malloc STACK_SIZE) = 0 \<or> ?p < 0"
    then have "release_byte \<notin> set (snd (ns_create kp cfg))"
      by (auto simp: ns_create_def Let_def child_pid_def mc_log_def release_byte_def)
    with rel show False by simp
  qed
  have run: "snd (ns_create kp cfg) =
      (if fst ?su \<noteq> MC_OK
       then ?pre @ snd ?su @ [Call (Kill ?p SIGKILL), Call (Waitpid ?p WBLOCK), Call Free,
                              Call (Close SyncPipeRd), Call (Close SyncPipeWr)]
       else ?pre @ snd ?su @ [Call (Close SyncPipeRd), Call (Write SyncPipeWr ''x''),
                              Call (Close SyncPipeWr)])"
    using early by (simp add: ns_create_def Let_def child_pid_def case_prod_beta)
  have ok: "fst ?su = MC_OK"
  proof (rule ccontr)
    assume "fst ?su \<noteq> MC_OK"
    with run su_free pre_free have "release_byte \<notin> set (snd (ns_create kp cfg))"
      by (simp add: release_byte_def)
    with rel show False by simp
  qed
  let ?A = "?pre @ snd ?su @ [Call (Close SyncPipeRd)]"
  have shape: "snd (ns_create kp cfg) = ?A @ [release_byte, Call (Close SyncPipeWr)]"
    using run ok by (simp add: release_byte_def)
  have free: "release_byte \<notin> set ?A"
    using su_free pre_free by (simp add: release_byte_def)
  have maps: "subseq (maps_installed kp cfg) ?A
      \<and> (0 \<le> sys kp (Open_wronly (proc_file ?p ''/setgroups''))
           \<longrightarrow> subseq (deny_and_maps kp cfg) ?A)
      \<and> sys kp (Write (File (proc_file ?p ''/uid_map''))
                  (map_row (uid_map_container cfg) (uid_map_host cfg)))
          = int (length (map_row (uid_map_container cfg) (uid_map_host cfg)))
      \<and> sys kp (Write (File (proc_file ?p ''/gid_map''))
                  (map_row (gid_map_container cfg) (gid_map_host cfg)))
          = int (length (map_row (gid_map_container cfg) (gid_map_host cfg)))"
    if user: "enable_user_ns cfg \<noteq> 0"
  proof -
    from ok user have "fst (ns_setup_user kp ?p (uid_map_host cfg) (uid_map_container cfg)
                         (gid_map_host cfg) (gid_map_container cfg)) = MC_OK"
      by simp
    note su = ns_setup_user_ok [OF this]
    from su have "subseq (maps_installed kp cfg) (snd ?su)"
      using user by (simp add: maps_installed_def)
    then have "subseq ([] @ maps_installed kp cfg @ []) ?A"
      by (intro list_emb_append_mono) simp_all
    then have plain: "subseq (maps_installed kp cfg) ?A" by simp
    have deny: "subseq (deny_and_maps kp cfg) ?A"
      if "0 \<le> sys kp (Open_wronly (proc_file ?p ''/setgroups''))"
    proof -
      from su that have "subseq (deny_and_maps kp cfg) (snd ?su)"
        using user by (simp add: deny_and_maps_def)
      then have "subseq ([] @ deny_and_maps kp cfg @ []) ?A"
        by (intro list_emb_append_mono) simp_all
      then show ?thesis by simp
    qed
    from plain deny su show ?thesis by blast
  qed
  from shape free maps show ?thesis by blast
qed

lemma events_of_simps [simp]:
  "events_of p [] = []"
  "events_of p (tr @ tr') = events_of p tr @ events_of p tr'"
  "events_of p ((q, e) # tr) = (if q = p then e # events_of p tr else events_of p tr)"
  by (simp_all add: events_of_def)

lemma events_of_map_Pair [simp]:
  "events_of p (map (Pair q) es) = (if q = p then es else [])"
  by (induction es) auto

lemma run_parent_prefix:
  "tr \<in> spawn_runs kp kc cfg \<Longrightarrow> prefix (events_of Parent tr) (snd (ns_create kp cfg))"
proof (induction rule: spawn_runs.induct)
  case start
  show ?case by simp
next
  case (parent_step tr e rest)
  have "prefix (events_of Parent tr @ [e]) (events_of Parent tr @ e # rest)"
    by simp
  with parent_step.hyps(2) show ?case by simp
next
  case (child_step tr e rest)
  then show ?case by simp
qed

lemma run_read_released:
  "tr \<in> spawn_runs kp kc cfg \<Longrightarrow>
   Call (Read SyncPipeRd 1) \<in> set (events_of Child tr) \<Longrightarrow>
   sys kc (Read SyncPipeRd 1) = 1 \<Longrightarrow>
   release_byte \<in> set (events_of Parent tr)"
  by (induction rule: spawn_runs.induct) (auto split: if_splits)

lemma work_after_read:
  assumes next_event: "q @ e # rest = snd (container_child kc cfg)"
    and work: "namespace_work e"
  shows "\<exists>q'. q = Call (Close SyncPipeWr) # Call (Read SyncPipeRd 1) # q'"
    and "sys kc (Read SyncPipeRd 1) = 1"
proof -
  obtain rest0 where shape: "snd (container_child kc cfg)
        = Call (Close SyncPipeWr) # Call (Read SyncPipeRd 1) # rest0"
      and failed: "sys kc (Read SyncPipeRd 1) \<noteq> 1
        \<longrightarrow> rest0 = [Log 3 ''Failed to read from sync pipe'']"
    using container_child_shape by blast
  have quiet: "\<not> namespace_work (Call (Close SyncPipeWr))"
    "\<not> namespace_work (Call (Read SyncPipeRd 1))"
    "\<not> namespace_work (Log 3 ''Failed to read from sync pipe'')"
    by (simp_all add: namespace_work_def)
  from next_event shape have eq: "q @ e # rest
      = Call (Close SyncPipeWr) # Call (Read SyncPipeRd 1) # rest0"
    by simp
  show q: "\<exists>q'. q = Call (Close SyncPipeWr) # Call (Read SyncPipeRd 1) # q'"
  proof (cases q)
    case Nil
    with eq work quiet show ?thesis by auto
  next
    case (Cons a q1)
    show ?thesis
    proof (cases q1)
      case Nil
      with Cons eq work quiet show ?thesis by auto
    next
      case (Cons b q2)
      with \<open>q = a # q1\<close> eq show ?thesis by auto
    qed
  qed
  show "sys kc (Read SyncPipeRd 1) = 1"
  proof (rule ccontr)
    assume "sys kc (Read SyncPipeRd 1) \<noteq> 1"
    with failed have "rest0 = [Log 3 ''Failed to read from sync pipe'']"
      by simp
    with q eq have "e = Log 3 ''Failed to read from sync pipe''"
      by (auto simp: Cons_eq_append_conv append_eq_Cons_conv)
    with work quiet show False by simp
  qed
qed

lemma work_needs_release:
  "tr \<in> spawn_runs kp kc cfg \<Longrightarrow> tr = pre @ (Child, e) # post \<Longrightarrow> namespace_work e \<Longrightarrow>
   release_byte \<in> set (events_of Parent pre)
   \<and> sys kc (Read SyncPipeRd 1) = 1
   \<and> (\<exists>q'. events_of Child pre = Call (Close SyncPipeWr) # Call (Read SyncPipeRd 1) # q')"
proof (induction arbitrary: post rule: spawn_runs.induct)
  case start
  then show ?case by simp
next
  case (parent_step tr e' rest)
  show ?case
  proof (cases post rule: rev_cases)
    case Nil
    with parent_step.prems show ?thesis by simp
  next
    case (snoc post' x)
    with parent_step.prems have "tr = pre @ (Child, e) # post'" by simp
    from parent_step.IH [OF this parent_step.prems(2)] show ?thesis .
  qed
next
  case (child_step tr e' rest)
  show ?case
  proof (cases post rule: rev_cases)
    case Nil
    with child_step.prems have same: "pre = tr" "e' = e" by simp_all
    from work_after_read [OF child_step.hyps(2) [unfolded same(2)] child_step.prems(2)]
    obtain q' where q: "events_of Child tr = Call (Close SyncPipeWr) # Call (Read SyncPipeRd 1) # q'"
      and one: "sys kc (Read SyncPipeRd 1) = 1"
      by blast
    from q have "Call (Read SyncPipeRd 1) \<in> set (events_of Child tr)" by simp
    from run_read_released [OF child_step.hyps(1) this one] q one same show ?thesis
      by blast
  next
    case (snoc post' x)
    with child_step.prems have "tr = pre @ (Child, e) # post'" by simp
    from child_step.IH [OF this child_step.prems(2)] show ?thesis .
  qed
qed

lemma released_prefix:
  assumes pre: "prefix q (A @ [release_byte, c])" and rel: "release_byte \<in> set q"
    and free: "release_byte \<notin> set A" and maps: "subseq ms A"
  shows "subseq (ms @ [release_byte]) q"
proof -
  from pre have "prefix q A \<or> (\<exists>us. q = A @ us \<and> prefix us [release_byte, c])"
    by (simp add: prefix_append)
  then show ?thesis
  proof
    assume "prefix q A"
    then have "set q \<subseteq> set A" by (rule set_mono_prefix)
    with rel free show ?thesis by auto
  next
    assume "\<exists>us. q = A @ us \<and> prefix us [release_byte, c]"
    then obtain us where q: "q = A @ us" and us: "prefix us [release_byte, c]"
      by blast
    from rel free q have "release_byte \<in> set us" by simp
    with us have "subseq [release_byte] us"
      by (cases us) (auto simp: prefix_Cons)
    with maps show ?thesis
      unfolding q by (rule list_emb_append_mono)
  qed
qed

text \<open>
  C2, as the code has it. In every run of the spawn, whatever the kernel answers to
  parent and child, an event of the child that touches the hostname or the mounts
  (\<open>e\<close>, anywhere in the run) comes after these: the child has closed its write end
  and made its one-byte read of the pipe as its first two calls, and the read has
  returned 1; the parent has written the release byte; and, when user namespaces are
  enabled, the parent has before that opened \<open>setgroups\<close> of the child for the
  \<open>deny\<close> and written the single rows of \<open>uid_map\<close> and \<open>gid_map\<close> of the child,
  both writes complete, in this order. The \<open>deny\<close> is only attempted: when
  \<open>setgroups\<close> opens, the write of \<open>deny\<close> comes between the open and the write of
  \<open>uid_map\<close>; when it does not, the parent logs a warning and goes on to the maps.
\<close>

theorem child_waits_for_maps:
  assumes run: "tr \<in> spawn_runs kp kc cfg"
    and split: "tr = pre @ (Child, e) # post"
    and work: "namespace_work e"
  shows "(\<exists>q. events_of Child pre = Call (Close SyncPipeWr) # Call (Read SyncPipeRd 1) # q)
   \<and> sys kc (Read SyncPipeRd 1) = 1
   \<and> release_byte \<in> set (events_of Parent pre)
   \<and> (enable_user_ns cfg \<noteq> 0 \<longrightarrow>
         subseq (maps_installed kp cfg @ [release_byte]) (events_of Parent pre)
         \<and> (0 \<le> sys kp (Open_wronly (proc_file (child_pid kp cfg) ''/setgroups''))
              \<longrightarrow> subseq (deny_and_maps kp cfg @ [release_byte]) (events_of Parent pre))
         \<and> sys kp (Write (File (proc_file (child_pid kp cfg) ''/uid_map''))
                     (map_row (uid_map_container cfg) (uid_map_host cfg)))
             = int (length (map_row (uid_map_container cfg) (uid_map_host cfg)))
         \<and> sys kp (Write (File (proc_file (child_pid kp cfg) ''/gid_map''))
                     (map_row (gid_map_container cfg) (gid_map_host cfg)))
             = int (length (map_row (gid_map_container cfg) (gid_map_host cfg))))"
proof -
  note need = work_needs_release [OF run split work]
  then have rel: "release_byte \<in> set (events_of Parent pre)" by simp
  have "prefix (events_of Parent pre) (events_of Parent tr)"
    by (simp add: split)
  with run_parent_prefix [OF run]
  have pre: "prefix (events_of Parent pre) (snd (ns_create kp cfg))"
    by (rule prefix_order.trans [rotated])
  then have "set (events_of Parent pre) \<subseteq> set (snd (ns_create kp cfg))"
    by (rule set_mono_prefix)
  with rel have "release_byte \<in> set (snd (ns_create kp cfg))" by auto
  from ns_create_released [OF this] obtain A
    where shape: "snd (ns_create kp cfg) = A @ [release_byte, Call (Close SyncPipeWr)]"
      and free: "release_byte \<notin> set A"
      and maps: "enable_user_ns cfg \<noteq> 0 \<longrightarrow>
                 subseq (maps_installed kp cfg) A
                 \<and> (0 \<le> sys kp (Open_wronly (proc_file (child_pid kp cfg) ''/setgroups''))
                      \<longrightarrow> subseq (deny_and_maps kp cfg) A)
                 \<and> sys kp (Write (File (proc_file (child_pid kp cfg) ''/uid_map''))
                             (map_row (uid_map_container cfg) (uid_map_host cfg)))
                     = int (length (map_row (uid_map_container cfg) (uid_map_host cfg)))
                 \<and> sys kp (Write (File (proc_file (child_pid kp cfg) ''/gid_map''))
                             (map_row (gid_map_container cfg) (gid_map_host cfg)))
                     = int (length (map_row (gid_map_container cfg) (gid_map_host cfg)))"
    by blast
  note before = released_prefix [OF pre [unfolded shape] rel free]
  have plain: "subseq (maps_installed kp cfg @ [release_byte]) (events_of Parent pre)"
    if "enable_user_ns cfg \<noteq> 0"
    using before maps that by blast
  have deny: "subseq (deny_and_maps kp cfg @ [release_byte]) (events_of Parent pre)"
    if "enable_user_ns cfg \<noteq> 0"
      and "0 \<le> sys kp (Open_wronly (proc_file (child_pid kp cfg) ''/setgroups''))"
    using before maps that by blast
  from need maps plain deny show ?thesis by blast
qed

lemma parent_alone_runs:
  "n \<le> length (snd (ns_create kp cfg)) \<Longrightarrow>
   map (Pair Parent) (take n (snd (ns_create kp cfg))) \<in> spawn_runs kp kc cfg"
proof (induction n)
  case 0
  show ?case by (simp add: spawn_runs.start)
next
  case (Suc n)
  let ?P = "snd (ns_create kp cfg)"
  from Suc.prems have n: "n < length ?P" by simp
  then have tk: "take (Suc n) ?P = take n ?P @ [?P ! n]"
    by (rule take_Suc_conv_app_nth)
  have "events_of Parent (map (Pair Parent) (take n ?P)) @ ?P ! n # drop (Suc n) ?P = ?P"
    using n by (simp add: Cons_nth_drop_Suc)
  from spawn_runs.parent_step [OF Suc.IH this] n show ?case
    by (simp add: tk)
qed

lemma sequential_run_runs:
  assumes rel: "release_byte \<in> set (snd (ns_create kp cfg))"
    and m: "m \<le> length (snd (container_child kc cfg))"
  shows "sequential_run kp kc cfg m \<in> spawn_runs kp kc cfg"
  using m
proof (induction m)
  case 0
  from parent_alone_runs [of "length (snd (ns_create kp cfg))" kp cfg kc] show ?case
    by (simp add: sequential_run_def)
next
  case (Suc m)
  let ?C = "snd (container_child kc cfg)"
  from Suc.prems have m: "m < length ?C" by simp
  then have tk: "take (Suc m) ?C = take m ?C @ [?C ! m]"
    by (rule take_Suc_conv_app_nth)
  from Suc have IH: "sequential_run kp kc cfg m \<in> spawn_runs kp kc cfg" by simp
  have next_event: "events_of Child (sequential_run kp kc cfg m) @ ?C ! m # drop (Suc m) ?C = ?C"
    using m by (simp add: sequential_run_def Cons_nth_drop_Suc)
  have parent: "events_of Parent (sequential_run kp kc cfg m) = snd (ns_create kp cfg)"
    by (simp add: sequential_run_def)
  from ns_create_released [OF rel] obtain A
    where "snd (ns_create kp cfg) = A @ [release_byte, Call (Close SyncPipeWr)]" by blast
  moreover have "list_ex is_clone (snd (ns_create kp cfg))"
  proof (rule ccontr)
    assume "\<not> list_ex is_clone (snd (ns_create kp cfg))"
    then have "release_byte \<notin> set (snd (ns_create kp cfg))"
      by (auto simp: ns_create_def Let_def mc_log_def release_byte_def case_prod_beta
          split: if_splits)
    with rel show False by simp
  qed
  ultimately have cloned: "list_ex is_clone (events_of Parent (sequential_run kp kc cfg m))"
    by (simp add: parent)
  from spawn_runs.child_step [OF IH next_event cloned] rel parent
  have "sequential_run kp kc cfg m @ [(Child, ?C ! m)] \<in> spawn_runs kp kc cfg"
    by simp
  then show ?case
    by (simp add: sequential_run_def tk)
qed

lemma ns_create_userns:
  "snd (ns_create friendly_kernel userns_config) =
     [Call Pipe, Call (Malloc 1048576),
      Call (Clone {SIGCHLD, CLONE_NEWUSER, CLONE_NEWPID, CLONE_NEWNS, CLONE_NEWUTS,
                   CLONE_NEWIPC, CLONE_NEWCGROUP}),
      Log 1 ''Created container process with PID: %d'',
      Call (Open_wronly ''/proc/4242/setgroups''),
      Call (Write (File ''/proc/4242/setgroups'') ''deny''),
      Call (Close (File ''/proc/4242/setgroups'')),
      Call (Open_wronly ''/proc/4242/uid_map''),
      Call (Write (File ''/proc/4242/uid_map'') ''0 1000 1\<newline>''),
      Call (Close (File ''/proc/4242/uid_map'')),
      Log 1 ''Set UID mapping: %u -> %u'',
      Call (Open_wronly ''/proc/4242/gid_map''),
      Call (Write (File ''/proc/4242/gid_map'') ''0 1000 1\<newline>''),
      Call (Close (File ''/proc/4242/gid_map'')),
      Log 1 ''Set GID mapping: %u -> %u'',
      Call (Close SyncPipeRd), Call (Write SyncPipeWr ''x''), Call (Close SyncPipeWr)]"
  by (simp add: ns_create_def ns_setup_user_def write_file_def get_ns_flags_def Let_def
      userns_config_def log_simps buf_simps friendly_simps)

lemma container_child_userns:
  "\<exists>rest. snd (container_child friendly_kernel userns_config)
     = [Call (Close SyncPipeWr), Call (Read SyncPipeRd 1), Call (Close SyncPipeRd),
        Call (Sethostname ''web'')] @ rest"
  by (simp add: container_child_def ns_setup_uts_def Let_def case_prod_beta userns_config_def
      friendly_simps log_simps)

theorem child_waits_for_maps_witness:
  "sequential_run friendly_kernel friendly_kernel userns_config 4
     \<in> spawn_runs friendly_kernel friendly_kernel userns_config
   \<and> sequential_run friendly_kernel friendly_kernel userns_config 4
       = sequential_run friendly_kernel friendly_kernel userns_config 3
         @ (Child, Call (Sethostname ''web'')) # []
   \<and> namespace_work (Call (Sethostname ''web''))
   \<and> enable_user_ns userns_config \<noteq> 0
   \<and> 0 \<le> sys friendly_kernel (Open_wronly ''/proc/4242/setgroups'')
   \<and> subseq [Call (Open_wronly ''/proc/4242/setgroups''),
              Call (Write (File ''/proc/4242/setgroups'') ''deny''),
              Call (Write (File ''/proc/4242/uid_map'') ''0 1000 1\<newline>''),
              Call (Write (File ''/proc/4242/gid_map'') ''0 1000 1\<newline>''),
              Call (Write SyncPipeWr ''x'')]
        (events_of Parent (sequential_run friendly_kernel friendly_kernel userns_config 3))"
proof -
  let ?k = friendly_kernel and ?cfg = userns_config
  obtain rest where child: "snd (container_child ?k ?cfg)
      = [Call (Close SyncPipeWr), Call (Read SyncPipeRd 1), Call (Close SyncPipeRd),
         Call (Sethostname ''web'')] @ rest"
    using container_child_userns by blast
  have rel: "release_byte \<in> set (snd (ns_create ?k ?cfg))"
    by (simp add: ns_create_userns release_byte_def)
  have "4 \<le> length (snd (container_child ?k ?cfg))"
    by (simp add: child)
  from sequential_run_runs [OF rel this]
  have run: "sequential_run ?k ?k ?cfg 4 \<in> spawn_runs ?k ?k ?cfg" .
  have split: "sequential_run ?k ?k ?cfg 4
      = sequential_run ?k ?k ?cfg 3 @ (Child, Call (Sethostname ''web'')) # []"
    by (simp add: sequential_run_def child)
  have work: "namespace_work (Call (Sethostname ''web''))"
    by (simp add: namespace_work_def)
  have user: "enable_user_ns ?cfg \<noteq> 0"
    by (simp add: userns_config_def plain_config_def)
  have setgroups: "proc_file (child_pid ?k ?cfg) ''/setgroups'' = ''/proc/4242/setgroups''"
    by (simp add: child_pid_def proc_file_def get_ns_flags_def userns_config_def
        friendly_simps buf_simps)
  have opens: "0 \<le> sys ?k (Open_wronly ''/proc/4242/setgroups'')"
    by (simp add: friendly_simps)
  have maps: "deny_and_maps ?k ?cfg @ [release_byte]
      = [Call (Open_wronly ''/proc/4242/setgroups''),
         Call (Write (File ''/proc/4242/setgroups'') ''deny''),
         Call (Write (File ''/proc/4242/uid_map'') ''0 1000 1\<newline>''),
         Call (Write (File ''/proc/4242/gid_map'') ''0 1000 1\<newline>''),
         Call (Write SyncPipeWr ''x'')]"
    by (simp add: deny_and_maps_def release_byte_def child_pid_def proc_file_def map_row_def
        get_ns_flags_def userns_config_def friendly_simps buf_simps)
  from child_waits_for_maps [OF run split work] user opens run split work show ?thesis
    by (simp add: maps setgroups)
qed

lemma ns_create_refused:
  "snd (ns_create setgroups_refused userns_config) =
     [Call Pipe, Call (Malloc 1048576),
      Call (Clone {SIGCHLD, CLONE_NEWUSER, CLONE_NEWPID, CLONE_NEWNS, CLONE_NEWUTS,
                   CLONE_NEWIPC, CLONE_NEWCGROUP}),
      Log 1 ''Created container process with PID: %d'',
      Call (Open_wronly ''/proc/4242/setgroups''),
      Log 3 ''Failed to open %s: %s'',
      Log 2 ''Could not write setgroups deny (may be already denied)'',
      Call (Open_wronly ''/proc/4242/uid_map''),
      Call (Write (File ''/proc/4242/uid_map'') ''0 1000 1\<newline>''),
      Call (Close (File ''/proc/4242/uid_map'')),
      Log 1 ''Set UID mapping: %u -> %u'',
      Call (Open_wronly ''/proc/4242/gid_map''),
      Call (Write (File ''/proc/4242/gid_map'') ''0 1000 1\<newline>''),
      Call (Close (File ''/proc/4242/gid_map'')),
      Log 1 ''Set GID mapping: %u -> %u'',
      Call (Close SyncPipeRd), Call (Write SyncPipeWr ''x''), Call (Close SyncPipeWr)]"
  by (simp add: ns_create_def ns_setup_user_def write_file_def get_ns_flags_def Let_def
      userns_config_def log_simps buf_simps setgroups_refused_def friendly_simps)

text \<open>
  C2 as the specification states it fails on the \<open>deny\<close>. The parent's kernel
  refuses the open of \<open>setgroups\<close>; \<open>ns_setup_user\<close> logs its warning, installs
  the maps and the parent writes the release byte. In the run where the parent finishes
  first, the child's fourth event sets the hostname, and nothing was ever written to
  \<open>setgroups\<close>.
\<close>

theorem child_runs_without_deny:
  "enable_user_ns userns_config \<noteq> 0
   \<and> sequential_run setgroups_refused friendly_kernel userns_config 4
       \<in> spawn_runs setgroups_refused friendly_kernel userns_config
   \<and> sequential_run setgroups_refused friendly_kernel userns_config 4
       = sequential_run setgroups_refused friendly_kernel userns_config 3
         @ [(Child, Call (Sethostname ''web''))]
   \<and> namespace_work (Call (Sethostname ''web''))
   \<and> release_byte
       \<in> set (events_of Parent (sequential_run setgroups_refused friendly_kernel userns_config 3))
   \<and> written_to ''/proc/4242/setgroups''
        (events_of Parent (sequential_run setgroups_refused friendly_kernel userns_config 4))
       = []"
proof -
  let ?kp = setgroups_refused and ?kc = friendly_kernel and ?cfg = userns_config
  obtain rest where child: "snd (container_child ?kc ?cfg)
      = [Call (Close SyncPipeWr), Call (Read SyncPipeRd 1), Call (Close SyncPipeRd),
         Call (Sethostname ''web'')] @ rest"
    using container_child_userns by blast
  have rel: "release_byte \<in> set (snd (ns_create ?kp ?cfg))"
    by (simp add: ns_create_refused release_byte_def)
  have "4 \<le> length (snd (container_child ?kc ?cfg))"
    by (simp add: child)
  from sequential_run_runs [OF rel this]
  have run: "sequential_run ?kp ?kc ?cfg 4 \<in> spawn_runs ?kp ?kc ?cfg" .
  have split: "sequential_run ?kp ?kc ?cfg 4
      = sequential_run ?kp ?kc ?cfg 3 @ [(Child, Call (Sethostname ''web''))]"
    by (simp add: sequential_run_def child)
  have work: "namespace_work (Call (Sethostname ''web''))"
    by (simp add: namespace_work_def)
  have user: "enable_user_ns ?cfg \<noteq> 0"
    by (simp add: userns_config_def plain_config_def)
  have parent: "events_of Parent (sequential_run ?kp ?kc ?cfg m) = snd (ns_create ?kp ?cfg)"
    for m
    by (simp add: sequential_run_def)
  have unwritten: "written_to ''/proc/4242/setgroups'' (snd (ns_create ?kp ?cfg)) = []"
    by (simp add: ns_create_refused written_to_def file_writes_def)
  from run split work user rel unwritten show ?thesis
    by (simp add: parent)
qed

end
